theory Spec2Isabelle
  imports Main "HOL-Library.AList"
begin

section \<open>The kernel build-and-publish action: a shallow embedding\<close>

text \<open>
  The action is one TypeScript file: \<^verbatim>\<open>getInputs\<close> reads the inputs of the
  workflow step, \<^verbatim>\<open>run\<close> drives the installer, the cache client, the build tool, the
  copy, the artifact upload and the hub publish in a fixed order inside one
  \<^verbatim>\<open>try\<close> block, and the \<^verbatim>\<open>catch\<close> turns the first exception into
  \<^verbatim>\<open>core.setFailed\<close>.

  Everything the code does to the outside is an \<open>event\<close>; a computation returns the
  events it produced, in order, with either the value it returned or the value it
  threw. What the outside answers (the inputs, the exit status of each process, whether
  a path exists, what the glob finds) is a parameter, the \<open>world\<close>. Within one run no
  two process invocations have the same command and argument list, so a world that
  answers by invocation describes every possible behaviour of the collaborators.
\<close>

subsection \<open>Data\<close>

text \<open>What a JavaScript \<^verbatim>\<open>throw\<close> carries: an \<^verbatim>\<open>Error\<close> with its message, or
  any other value (the \<^verbatim>\<open>catch\<close> of \<^verbatim>\<open>run\<close> tells the two apart).\<close>

datatype thrown = Error string | NonError

text \<open>The type \<^verbatim>\<open>'build' | 'run'\<close> of the field \<^verbatim>\<open>nixCommand\<close>.\<close>

datatype nix_command = Build | Run

fun nix_command_str :: "nix_command \<Rightarrow> string" where
  "nix_command_str Build = ''build''"
| "nix_command_str Run = ''run''"

text \<open>The interface \<^verbatim>\<open>ActionInputs\<close>.\<close>

record ActionInputs =
  kernelPath :: string
  buildTarget :: string
  nixCommand :: nix_command
  verbose :: bool
  artifactName :: string
  uploadArtifact :: bool
  cachixName :: string
  cachixAuthToken :: string
  nixMaxJobs :: string
  nixCores :: string
  sandboxMode :: string
  extraNixConf :: string
  hfToken :: string
  hfRepo :: string
  publish :: bool

text \<open>
  The effects of the action. \<open>Exec cmd args cwd env\<close> is a call of
  \<^verbatim>\<open>exec.exec\<close> (\<open>cwd\<close> and \<open>env\<close> are \<open>None\<close> when the option is not given);
  \<open>Glob\<close> is the file enumeration and \<open>UploadArtifactCall\<close> the call of the artifact
  client; the others are the functions of \<^verbatim>\<open>@actions/core\<close> of the same name.
\<close>

datatype event =
    Info string
  | Warning string
  | StartGroup string
  | EndGroup
  | AddPath string
  | Exec string "string list" "string option" "(string \<times> string) list option"
  | Glob string
  | UploadArtifactCall string "string list" string
  | SetOutput string string
  | SetFailed string

text \<open>
  The outside. \<open>getInput\<close> is \<^verbatim>\<open>core.getInput\<close> (the trimmed value of an input,
  the empty string for one that is not given); \<open>exec_outcome\<close> is \<open>None\<close> when the
  process exits with status 0 and the thrown value otherwise; \<open>path_resolve\<close> and
  \<open>path_join\<close> are the functions of Node's \<^verbatim>\<open>path\<close>; \<open>existsSync\<close> is asked once,
  after the build; \<open>glob_files\<close> and \<open>uploadArtifact_outcome\<close> are the glob and the
  artifact client. \<open>process_env\<close> is \<^verbatim>\<open>process.env\<close> as the build stage copies it:
  \<^verbatim>\<open>core.addPath\<close> has by then put the directories of the \<open>AddPath\<close> events in
  front of its \<^verbatim>\<open>PATH\<close>, and no other variable changes during a run.
\<close>

record world =
  getInput :: "string \<Rightarrow> string"
  exec_outcome :: "string \<Rightarrow> string list \<Rightarrow> string option \<Rightarrow> (string \<times> string) list option \<Rightarrow> thrown option"
  path_resolve :: "string \<Rightarrow> string"
  path_join :: "string \<Rightarrow> string \<Rightarrow> string"
  existsSync :: "string \<Rightarrow> bool"
  glob_files :: "string \<Rightarrow> thrown + string list"
  uploadArtifact_outcome :: "string \<Rightarrow> string list \<Rightarrow> string \<Rightarrow> thrown option"
  process_env :: "(string \<times> string) list"

subsection \<open>Computations with effects and exceptions\<close>

type_synonym 'a io = "event list \<times> (thrown + 'a)"

definition ret :: "'a \<Rightarrow> 'a io" where
  "ret x = ([], Inr x)"

definition throw :: "thrown \<Rightarrow> 'a io" where
  "throw e = ([], Inl e)"

definition emit :: "event \<Rightarrow> unit io" where
  "emit ev = ([ev], Inr ())"

text \<open>\<open>bind m f\<close> is \<^verbatim>\<open>const x = await m; f(x)\<close>: when \<open>m\<close> throws, \<open>f\<close> does not run.\<close>

definition bind :: "'a io \<Rightarrow> ('a \<Rightarrow> 'b io) \<Rightarrow> 'b io" where
  "bind m f =
     (case m of
        (es, Inl e) \<Rightarrow> (es, Inl e)
      | (es, Inr x) \<Rightarrow> (case f x of (es', r) \<Rightarrow> (es @ es', r)))"

text \<open>A block of statements, run in order up to the first that throws.\<close>

fun seq :: "unit io list \<Rightarrow> unit io" where
  "seq [] = ret ()"
| "seq (m # ms) = bind m (\<lambda>_. seq ms)"

text \<open>\<^verbatim>\<open>if (c) { m }\<close> with no \<^verbatim>\<open>else\<close>.\<close>

definition if_then :: "bool \<Rightarrow> unit io \<Rightarrow> unit io" where
  "if_then c m = (if c then m else ret ())"

definition exec :: "world \<Rightarrow> string \<Rightarrow> string list \<Rightarrow> string option \<Rightarrow> (string \<times> string) list option \<Rightarrow> unit io" where
  "exec w cmd args cwd env =
     ([Exec cmd args cwd env],
      case exec_outcome w cmd args cwd env of None \<Rightarrow> Inr () | Some e \<Rightarrow> Inl e)"

text \<open>\<^verbatim>\<open>a || b\<close> on strings: the empty string is the only falsy one.\<close>

definition or_default :: "string \<Rightarrow> string \<Rightarrow> string" where
  "or_default a b = (if a \<noteq> [] then a else b)"

subsection \<open>getInputs\<close>

definition getInputs :: "world \<Rightarrow> thrown + ActionInputs" where
  "getInputs w =
     (let nixCommand = or_default (getInput w ''nix-command'') ''build'' in
      if nixCommand \<noteq> ''build'' \<and> nixCommand \<noteq> ''run''
      then Inl (Error (''Invalid nix-command: '' @ nixCommand @ ''. Must be 'build' or 'run'.''))
      else Inr \<lparr>
        kernelPath = or_default (getInput w ''kernel-path'') ''.'',
        buildTarget = or_default (getInput w ''build-target'') ''ci'',
        nixCommand = (if nixCommand = ''build'' then Build else Run),
        verbose = (getInput w ''verbose'' \<noteq> ''false''),
        artifactName = or_default (getInput w ''artifact-name'') ''kernel'',
        uploadArtifact = (getInput w ''upload-artifact'' \<noteq> ''false''),
        cachixName = or_default (getInput w ''cachix-name'') ''huggingface'',
        cachixAuthToken = or_default (getInput w ''cachix-auth-token'') '''',
        nixMaxJobs = or_default (getInput w ''nix-max-jobs'') ''4'',
        nixCores = or_default (getInput w ''nix-cores'') ''12'',
        sandboxMode = or_default (getInput w ''sandbox-mode'') ''fallback'',
        extraNixConf = or_default (getInput w ''extra-nix-conf'') '''',
        hfToken = or_default (getInput w ''hf-token'') '''',
        hfRepo = or_default (getInput w ''hf-repo'') '''',
        publish = (getInput w ''publish'' = ''true'')
      \<rparr>)"

subsection \<open>installNix\<close>

text \<open>The \<^verbatim>\<open>switch\<close> on the sandbox mode; \<^verbatim>\<open>'fallback'\<close> shares the
  \<^verbatim>\<open>default\<close> branch.\<close>

definition sandboxConf :: "string \<Rightarrow> string" where
  "sandboxConf = (\<lambda>sandboxMode.
     if sandboxMode = ''relaxed'' then ''sandbox = relaxed''
     else if sandboxMode = ''true'' then ''sandbox = true''
     else if sandboxMode = ''false'' then ''sandbox = false''
     else ''sandbox-fallback = false'')"

text \<open>The configuration block handed to the installer, with the extra lines appended
  when there are any.\<close>

definition extraConf :: "string \<Rightarrow> string \<Rightarrow> string \<Rightarrow> string \<Rightarrow> string" where
  "extraConf = (\<lambda>maxJobs cores sandboxMode extraNixConf.
     let base = ''max-jobs = '' @ maxJobs @ ''\<newline>cores = '' @ cores @ ''\<newline>''
                @ sandboxConf sandboxMode
                @ ''\<newline>experimental-features = nix-command flakes\<newline>trusted-users = root runner''
     in if extraNixConf \<noteq> [] then base @ ''\<newline>'' @ extraNixConf else base)"

definition installNix :: "world \<Rightarrow> string \<Rightarrow> string \<Rightarrow> string \<Rightarrow> string \<Rightarrow> unit io" where
  "installNix w = (\<lambda>maxJobs cores sandboxMode extraNixConf.
     seq [
       emit (Info ''Installing Nix...''),
       exec w ''curl'' [''--proto'', ''=https'', ''--tlsv1.2'', ''-sSf'', ''-L'',
                        ''https://install.determinate.systems/nix'', ''-o'', ''/tmp/nix-installer.sh'']
            None None,
       exec w ''sh'' [''/tmp/nix-installer.sh'', ''install'', ''--no-confirm'', ''--extra-conf'',
                      extraConf maxJobs cores sandboxMode extraNixConf]
            None None,
       emit (AddPath ''/nix/var/nix/profiles/default/bin''),
       emit (Info ''Nix installed successfully'')
     ])"

subsection \<open>setupCachix\<close>

text \<open>\<^verbatim>\<open>process.env.HOME\<close> inside a template literal: \<^verbatim>\<open>undefined\<close> prints as
  the word.\<close>

definition env_HOME :: "world \<Rightarrow> string" where
  "env_HOME w = (case map_of (process_env w) ''HOME'' of None \<Rightarrow> ''undefined'' | Some h \<Rightarrow> h)"

definition setupCachix :: "world \<Rightarrow> string \<Rightarrow> string \<Rightarrow> unit io" where
  "setupCachix w name authToken =
     (if name = [] then emit (Info ''Skipping Cachix setup (no cache name provided)'')
      else seq [
        emit (Info (''Setting up Cachix cache: '' @ name)),
        exec w ''nix-env'' [''-iA'', ''cachix'', ''-f'', ''https://cachix.org/api/v1/install''] None None,
        emit (AddPath (env_HOME w @ ''/.nix-profile/bin'')),
        if_then (authToken \<noteq> []) (exec w ''cachix'' [''authtoken'', authToken] None None),
        exec w ''cachix'' [''use'', name] None None,
        emit (Info ''Cachix configured successfully'')
      ])"

subsection \<open>buildKernel\<close>

text \<open>The arguments of the build tool: the command, \<^verbatim>\<open>-L\<close> when verbose, the
  flake target.\<close>

definition nix_args :: "string \<Rightarrow> nix_command \<Rightarrow> bool \<Rightarrow> string list" where
  "nix_args = (\<lambda>buildTarget nixCommand verbose.
     [nix_command_str nixCommand] @ (if verbose then [''-L''] else []) @ [''.#'' @ buildTarget])"

text \<open>The environment of the build tool: a copy of \<^verbatim>\<open>process.env\<close>, with
  \<^verbatim>\<open>HF_REPO\<close> set when the repository is given.\<close>

definition nix_env :: "world \<Rightarrow> string \<Rightarrow> (string \<times> string) list" where
  "nix_env w = (\<lambda>hfRepo.
     if hfRepo \<noteq> [] then AList.update ''HF_REPO'' hfRepo (process_env w) else process_env w)"

text \<open>The fixed place of the build result: \<^verbatim>\<open>result\<close> under the resolved kernel
  path.\<close>

definition resultPath_of :: "world \<Rightarrow> string \<Rightarrow> string" where
  "resultPath_of w = (\<lambda>kernelPath. path_join w (path_resolve w kernelPath) ''result'')"

definition buildKernel :: "world \<Rightarrow> string \<Rightarrow> string \<Rightarrow> nix_command \<Rightarrow> bool \<Rightarrow> string \<Rightarrow> string option io" where
  "buildKernel w = (\<lambda>kernelPath buildTarget nixCommand verbose hfRepo.
     let absoluteKernelPath = path_resolve w kernelPath;
         resultPath = resultPath_of w kernelPath
     in bind (seq [
          emit (Info ((if nixCommand = Build then ''Building'' else ''Running'')
                      @ '' kernel at '' @ kernelPath @ '' with target '' @ buildTarget)),
          if_then (hfRepo \<noteq> []) (emit (Info (''Setting HF_REPO='' @ hfRepo))),
          exec w ''nix'' (nix_args buildTarget nixCommand verbose)
               (Some absoluteKernelPath) (Some (nix_env w hfRepo))
        ])
        (\<lambda>_. if \<not> existsSync w resultPath then
               (if nixCommand = Build
                then throw (Error (''Build result not found at '' @ resultPath))
                else bind (emit (Info ''No result directory found (expected for nix run commands that handle their own output)''))
                          (\<lambda>_. ret None))
             else bind (emit (Info ''Kernel built successfully'')) (\<lambda>_. ret (Some resultPath))))"

subsection \<open>copyKernel, uploadKernelArtifact, publishToHuggingFace, uploadWithKernelsCli\<close>

definition copyKernel :: "world \<Rightarrow> string \<Rightarrow> string \<Rightarrow> string io" where
  "copyKernel w = (\<lambda>resultPath artifactName.
     let outputPath = artifactName @ ''-output''
     in bind (seq [
          emit (Info (''Copying kernel from '' @ resultPath @ '' to '' @ outputPath)),
          exec w ''cp'' [''-rL'', resultPath, outputPath] None None,
          emit (Info (''Kernel copied to '' @ outputPath))
        ])
        (\<lambda>_. ret outputPath))"

text \<open>\<^verbatim>\<open>glob.create\<close> followed by \<^verbatim>\<open>globber.glob()\<close>.\<close>

definition glob :: "world \<Rightarrow> string \<Rightarrow> string list io" where
  "glob w pattern = ([Glob pattern], glob_files w pattern)"

definition uploadArtifactCall :: "world \<Rightarrow> string \<Rightarrow> string list \<Rightarrow> string \<Rightarrow> unit io" where
  "uploadArtifactCall w name files rootDirectory =
     ([UploadArtifactCall name files rootDirectory],
      case uploadArtifact_outcome w name files rootDirectory of None \<Rightarrow> Inr () | Some e \<Rightarrow> Inl e)"

definition uploadKernelArtifact :: "world \<Rightarrow> string \<Rightarrow> string \<Rightarrow> unit io" where
  "uploadKernelArtifact w = (\<lambda>kernelOutputPath artifactName.
     bind (emit (Info (''Uploading artifact: '' @ artifactName)))
       (\<lambda>_. bind (glob w (kernelOutputPath @ ''/**/*''))
       (\<lambda>files. seq [
          uploadArtifactCall w artifactName files kernelOutputPath,
          emit (Info ''Artifact uploaded successfully'')
        ])))"

definition pythonScript :: "string \<Rightarrow> string \<Rightarrow> string \<Rightarrow> string" where
  \<open>pythonScript = (\<lambda>kernelOutputPath hfRepo hfToken.
     ''\<newline>from huggingface_hub import HfApi\<newline>import os\<newline>\<newline>api = HfApi(token="'' @ hfToken
     @ ''")\<newline>api.upload_folder(\<newline>    folder_path="'' @ kernelOutputPath
     @ ''",\<newline>    repo_id="'' @ hfRepo
     @ ''",\<newline>    repo_type="model",\<newline>)\<newline>print("Successfully published to '' @ hfRepo
     @ ''")\<newline>'')\<close>

definition publishToHuggingFace :: "world \<Rightarrow> string \<Rightarrow> string \<Rightarrow> string \<Rightarrow> unit io" where
  "publishToHuggingFace w = (\<lambda>kernelOutputPath hfRepo hfToken.
     seq [
       emit (Info (''Publishing to Hugging Face: '' @ hfRepo)),
       exec w ''pip'' [''install'', ''huggingface_hub''] None None,
       exec w ''python'' [''-c'', pythonScript kernelOutputPath hfRepo hfToken] None None,
       emit (Info ''Published to Hugging Face successfully'')
     ])"

definition uploadWithKernelsCli :: "world \<Rightarrow> string \<Rightarrow> string \<Rightarrow> unit io" where
  "uploadWithKernelsCli w = (\<lambda>kernelPath hfRepo.
     seq [
       emit (Info (''Uploading to Kernel Hub: '' @ hfRepo)),
       exec w ''nix'' [''run'', ''.#kernels'', ''--'', ''upload'', ''--repo_id'', hfRepo, ''.'']
            (Some (path_resolve w kernelPath)) None,
       emit (Info (''Kernel uploaded to https://hf.co/'' @ hfRepo))
     ])"

subsection \<open>run\<close>

text \<open>The two values \<^verbatim>\<open>run\<close> derives from the inputs before any stage:
  \<^verbatim>\<open>needsManualUpload\<close> (a string or a boolean in the source, used for its truth
  value only) and the local \<^verbatim>\<open>buildTarget\<close>.\<close>

definition needsManualUpload :: "ActionInputs \<Rightarrow> bool" where
  "needsManualUpload inputs \<longleftrightarrow> hfRepo inputs \<noteq> [] \<and> buildTarget inputs = ''build-and-upload''"

definition effectiveBuildTarget :: "ActionInputs \<Rightarrow> string" where
  "effectiveBuildTarget inputs =
     (if needsManualUpload inputs then ''build-and-copy'' else buildTarget inputs)"

text \<open>The \<^verbatim>\<open>try\<close> block after \<^verbatim>\<open>const inputs = getInputs()\<close> (lines 260 to 338),
  as a function of the inputs. A \<^verbatim>\<open>return\<close> inside it ends the block.\<close>

definition run_inputs :: "world \<Rightarrow> ActionInputs \<Rightarrow> unit io" where
  "run_inputs w inputs =
     bind (seq [
       if_then (needsManualUpload inputs)
         (emit (Info (''hf-repo is set to '' @ hfRepo inputs @ '', using build-and-copy + manual upload''))),
       emit (StartGroup ''Install Nix''),
       installNix w (nixMaxJobs inputs) (nixCores inputs) (sandboxMode inputs) (extraNixConf inputs),
       emit EndGroup,
       emit (StartGroup ''Setup Cachix''),
       setupCachix w (cachixName inputs) (cachixAuthToken inputs),
       emit EndGroup,
       emit (StartGroup (if nixCommand inputs = Build then ''Build Kernel'' else ''Run Kernel''))
     ])
     (\<lambda>_. bind (buildKernel w (kernelPath inputs) (effectiveBuildTarget inputs) (nixCommand inputs)
                  (verbose inputs) (hfRepo inputs))
     (\<lambda>resultPath. bind (emit EndGroup)
     (\<lambda>_. if needsManualUpload inputs then seq [
             emit (StartGroup ''Upload to Kernel Hub''),
             uploadWithKernelsCli w (kernelPath inputs) (hfRepo inputs),
             emit EndGroup,
             emit (SetOutput ''kernel-path'' []),
             emit (SetOutput ''artifact-name'' (artifactName inputs)),
             emit (Info ''Action completed successfully!'')
           ]
           else (case resultPath of
             None \<Rightarrow> seq [
               emit (Info ''No result to copy/upload (nix run command handled output)''),
               emit (SetOutput ''kernel-path'' []),
               emit (SetOutput ''artifact-name'' (artifactName inputs)),
               emit (Info ''Action completed successfully!'')
             ]
           | Some resultPath \<Rightarrow>
               bind (emit (StartGroup ''Copy Kernel''))
                 (\<lambda>_. bind (copyKernel w resultPath (artifactName inputs))
                 (\<lambda>kernelOutputPath. seq [
                    emit (SetOutput ''kernel-path'' kernelOutputPath),
                    emit (SetOutput ''artifact-name'' (artifactName inputs)),
                    emit EndGroup,
                    if_then (uploadArtifact inputs) (seq [
                      emit (StartGroup ''Upload Artifact''),
                      uploadKernelArtifact w kernelOutputPath (artifactName inputs),
                      emit EndGroup
                    ]),
                    (if publish inputs \<and> hfToken inputs \<noteq> [] \<and> hfRepo inputs \<noteq> [] then seq [
                       emit (StartGroup ''Publish to Hugging Face''),
                       publishToHuggingFace w kernelOutputPath (hfRepo inputs) (hfToken inputs),
                       emit EndGroup
                     ]
                     else if publish inputs then
                       emit (Warning ''Publish requested but hf-token or hf-repo not provided. Skipping publish.'')
                     else ret ()),
                    emit (Info ''Action completed successfully!'')
                  ]))))))"

text \<open>The \<^verbatim>\<open>catch\<close>: the message of an \<^verbatim>\<open>Error\<close>, a fixed one otherwise.\<close>

fun failure_message :: "thrown \<Rightarrow> string" where
  "failure_message (Error message) = message"
| "failure_message NonError = ''An unexpected error occurred''"

definition catch :: "unit io \<Rightarrow> event list" where
  "catch m = (case m of (es, Inl e) \<Rightarrow> es @ [SetFailed (failure_message e)] | (es, Inr _) \<Rightarrow> es)"

text \<open>The whole function: every event of one execution of the action, in order.\<close>

definition run :: "world \<Rightarrow> event list" where
  "run w = catch (bind ([], getInputs w) (run_inputs w))"

subsection \<open>The action of src/index.ts\<close>

text \<open>
  The repository holds a second action, \<^verbatim>\<open>src/index.ts\<close>, with the same stages and
  no execution mode, sandbox mode, extra configuration or manual upload: it always
  builds, and a missing \<^verbatim>\<open>result\<close> always throws. Its \<^verbatim>\<open>copyKernel\<close>,
  \<^verbatim>\<open>uploadKernelArtifact\<close> and \<^verbatim>\<open>publishToHuggingFace\<close> are the three functions
  above, word for word; the others are embedded here under the prefix \<open>index_\<close>, the
  fields of its \<^verbatim>\<open>ActionInputs\<close> under the prefix \<open>ix_\<close>. Its \<^verbatim>\<open>getInputs\<close>
  cannot throw.
\<close>

record IndexInputs =
  ix_kernelPath :: string
  ix_buildTarget :: string
  ix_artifactName :: string
  ix_uploadArtifact :: bool
  ix_cachixName :: string
  ix_cachixAuthToken :: string
  ix_nixMaxJobs :: string
  ix_nixCores :: string
  ix_hfToken :: string
  ix_hfRepo :: string
  ix_publish :: bool

definition index_getInputs :: "world \<Rightarrow> IndexInputs" where
  "index_getInputs w = \<lparr>
     ix_kernelPath = or_default (getInput w ''kernel-path'') ''.'',
     ix_buildTarget = or_default (getInput w ''build-target'')
                        ''redistributable.torch29-cxx11-cu126-x86_64-linux'',
     ix_artifactName = or_default (getInput w ''artifact-name'') ''kernel'',
     ix_uploadArtifact = (getInput w ''upload-artifact'' \<noteq> ''false''),
     ix_cachixName = or_default (getInput w ''cachix-name'') ''huggingface'',
     ix_cachixAuthToken = or_default (getInput w ''cachix-auth-token'') [],
     ix_nixMaxJobs = or_default (getInput w ''nix-max-jobs'') ''4'',
     ix_nixCores = or_default (getInput w ''nix-cores'') ''12'',
     ix_hfToken = or_default (getInput w ''hf-token'') [],
     ix_hfRepo = or_default (getInput w ''hf-repo'') [],
     ix_publish = (getInput w ''publish'' = ''true'')
   \<rparr>"

definition index_installNix :: "world \<Rightarrow> string \<Rightarrow> string \<Rightarrow> unit io" where
  "index_installNix w maxJobs cores =
     seq [
       emit (Info ''Installing Nix...''),
       exec w ''curl'' [''--proto'', ''=https'', ''--tlsv1.2'', ''-sSf'', ''-L'',
                        ''https://install.determinate.systems/nix'', ''-o'', ''/tmp/nix-installer.sh'']
            None None,
       exec w ''sh'' [''/tmp/nix-installer.sh'', ''install'', ''--no-confirm'', ''--extra-conf'',
                      ''max-jobs = '' @ maxJobs @ ''\<newline>cores = '' @ cores
                      @ ''\<newline>sandbox-fallback = false\<newline>experimental-features = nix-command flakes'']
            None None,
       emit (AddPath ''/nix/var/nix/profiles/default/bin''),
       emit (Info ''Nix installed successfully'')
     ]"

definition index_setupCachix :: "world \<Rightarrow> string \<Rightarrow> string \<Rightarrow> unit io" where
  "index_setupCachix w name authToken =
     (if name = [] then emit (Info ''Skipping Cachix setup (no cache name provided)'')
      else seq [
        emit (Info (''Setting up Cachix cache: '' @ name)),
        exec w ''nix-env'' [''-iA'', ''cachix'', ''-f'', ''https://cachix.org/api/v1/install''] None None,
        if_then (authToken \<noteq> []) (exec w ''cachix'' [''authtoken'', authToken] None None),
        exec w ''cachix'' [''use'', name] None None,
        emit (Info ''Cachix configured successfully'')
      ])"

definition index_buildKernel :: "world \<Rightarrow> string \<Rightarrow> string \<Rightarrow> string io" where
  "index_buildKernel w = (\<lambda>kernelPath buildTarget.
     let absoluteKernelPath = path_resolve w kernelPath;
         resultPath = path_join w absoluteKernelPath ''result''
     in bind (seq [
          emit (Info (''Building kernel at '' @ kernelPath @ '' with target '' @ buildTarget)),
          exec w ''nix'' [''build'', ''.#'' @ buildTarget] (Some absoluteKernelPath) None
        ])
        (\<lambda>_. if \<not> existsSync w resultPath
             then throw (Error (''Build result not found at '' @ resultPath))
             else bind (emit (Info ''Kernel built successfully'')) (\<lambda>_. ret resultPath)))"

definition index_run :: "world \<Rightarrow> event list" where
  "index_run w = catch (
     let inputs = index_getInputs w in
     bind (seq [
       emit (StartGroup ''Install Nix''),
       index_installNix w (ix_nixMaxJobs inputs) (ix_nixCores inputs),
       emit EndGroup,
       emit (StartGroup ''Setup Cachix''),
       index_setupCachix w (ix_cachixName inputs) (ix_cachixAuthToken inputs),
       emit EndGroup,
       emit (StartGroup ''Build Kernel'')
     ])
     (\<lambda>_. bind (index_buildKernel w (ix_kernelPath inputs) (ix_buildTarget inputs))
     (\<lambda>resultPath. bind (emit EndGroup)
     (\<lambda>_. bind (emit (StartGroup ''Copy Kernel''))
     (\<lambda>_. bind (copyKernel w resultPath (ix_artifactName inputs))
     (\<lambda>kernelOutputPath. seq [
        emit (SetOutput ''kernel-path'' kernelOutputPath),
        emit (SetOutput ''artifact-name'' (ix_artifactName inputs)),
        emit EndGroup,
        if_then (ix_uploadArtifact inputs) (seq [
          emit (StartGroup ''Upload Artifact''),
          uploadKernelArtifact w kernelOutputPath (ix_artifactName inputs),
          emit EndGroup
        ]),
        (if ix_publish inputs \<and> ix_hfToken inputs \<noteq> [] \<and> ix_hfRepo inputs \<noteq> [] then seq [
           emit (StartGroup ''Publish to Hugging Face''),
           publishToHuggingFace w kernelOutputPath (ix_hfRepo inputs) (ix_hfToken inputs),
           emit EndGroup
         ]
         else if ix_publish inputs then
           emit (Warning ''Publish requested but hf-token or hf-repo not provided. Skipping publish.'')
         else ret ()),
        emit (Info ''Action completed successfully!'')
      ]))))))"

subsection \<open>Reading a trace\<close>

text \<open>The run failed when \<^verbatim>\<open>core.setFailed\<close> was called; it is the only way the
  action reports failure.\<close>

fun is_SetFailed :: "event \<Rightarrow> bool" where
  "is_SetFailed (SetFailed _) = True"
| "is_SetFailed _ = False"

definition failed :: "event list \<Rightarrow> bool" where
  "failed tr = list_ex is_SetFailed tr"

text \<open>The value of a named output after the run: the last one set, if any.\<close>

fun output_of :: "event list \<Rightarrow> string \<Rightarrow> string option" where
  "output_of [] name = None"
| "output_of (SetOutput n v # tr) name =
     (case output_of tr name of Some v' \<Rightarrow> Some v' | None \<Rightarrow> if n = name then Some v else None)"
| "output_of (_ # tr) name = output_of tr name"

text \<open>The external tools, by the command that starts them.\<close>

fun exec_of :: "string \<Rightarrow> event \<Rightarrow> bool" where
  "exec_of cmd (Exec c _ _ _) = (c = cmd)"
| "exec_of cmd _ = False"

text \<open>An external call of any kind: a process, the glob, the artifact client.\<close>

fun is_external :: "event \<Rightarrow> bool" where
  "is_external (Exec _ _ _ _) = True"
| "is_external (Glob _) = True"
| "is_external (UploadArtifactCall _ _ _) = True"
| "is_external _ = False"

text \<open>Packaging is the \<^verbatim>\<open>cp\<close>.\<close>

definition is_packaging :: "event \<Rightarrow> bool" where
  "is_packaging ev = exec_of ''cp'' ev"

text \<open>The generic artifact upload: the glob and the artifact client.\<close>

fun is_artifact_upload :: "event \<Rightarrow> bool" where
  "is_artifact_upload (Glob _) = True"
| "is_artifact_upload (UploadArtifactCall _ _ _) = True"
| "is_artifact_upload _ = False"

text \<open>The hub publish: \<^verbatim>\<open>pip\<close> and \<^verbatim>\<open>python\<close>.\<close>

definition is_hub_publish :: "event \<Rightarrow> bool" where
  "is_hub_publish ev \<longleftrightarrow> exec_of ''pip'' ev \<or> exec_of ''python'' ev"

text \<open>The cache client: its installation, authentication and registration.\<close>

definition is_cache_call :: "event \<Rightarrow> bool" where
  "is_cache_call ev \<longleftrightarrow> exec_of ''nix-env'' ev \<or> exec_of ''cachix'' ev"

text \<open>The direct upload against a repository: the \<^verbatim>\<open>kernels upload\<close> of the flake.\<close>

fun is_direct_upload :: "string \<Rightarrow> event \<Rightarrow> bool" where
  "is_direct_upload repo (Exec c args _ _) =
     (c = ''nix'' \<and> args = [''run'', ''.#kernels'', ''--'', ''upload'', ''--repo_id'', repo, ''.''])"
| "is_direct_upload repo _ = False"

text \<open>An external call that the world answers with a failure: a process that does not
  exit with status 0, a glob or an artifact client that throws.\<close>

fun call_fails :: "world \<Rightarrow> event \<Rightarrow> bool" where
  "call_fails w (Exec c a d e) = (exec_outcome w c a d e \<noteq> None)"
| "call_fails w (Glob p) = (case glob_files w p of Inl _ \<Rightarrow> True | Inr _ \<Rightarrow> False)"
| "call_fails w (UploadArtifactCall n fs r) = (uploadArtifact_outcome w n fs r \<noteq> None)"
| "call_fails w _ = False"

subsection \<open>Views of a computation and of run\<close>

definition events :: "'a io \<Rightarrow> event list" where
  "events m = fst m"

definition outcome :: "'a io \<Rightarrow> thrown + 'a" where
  "outcome m = snd m"

text \<open>The trace of the action on given inputs: the \<^verbatim>\<open>try\<close> block after
  \<^verbatim>\<open>getInputs\<close> and the \<^verbatim>\<open>catch\<close>. It is \<open>run w\<close> when \<open>getInputs w\<close> returns
  these inputs (\<open>run_trace\<close>); the properties of a run on a configuration are stated
  on it, for every configuration.\<close>

definition trace :: "world \<Rightarrow> ActionInputs \<Rightarrow> event list" where
  "trace w inputs = catch (run_inputs w inputs)"

fun is_SetOutput :: "event \<Rightarrow> bool" where
  "is_SetOutput (SetOutput _ _) = True"
| "is_SetOutput _ = False"

fun is_Warning :: "event \<Rightarrow> bool" where
  "is_Warning (Warning _) = True"
| "is_Warning _ = False"

text \<open>No event of a computation satisfies \<open>P\<close>.\<close>

definition never :: "(event \<Rightarrow> bool) \<Rightarrow> 'a io \<Rightarrow> bool" where
  "never P m \<longleftrightarrow> (\<forall>ev \<in> set (events m). \<not> P ev)"

text \<open>\<open>P\<close> holds of no log line, group marker or path addition.\<close>

definition log_free :: "(event \<Rightarrow> bool) \<Rightarrow> bool" where
  "log_free P \<longleftrightarrow>
     (\<forall>s. \<not> P (Info s)) \<and> (\<forall>s. \<not> P (StartGroup s)) \<and> \<not> P EndGroup \<and> (\<forall>s. \<not> P (AddPath s))"

text \<open>A computation throws only where one of its calls failed or \<open>B\<close> holds, and
  returns only where none of its calls failed. (\<open>B\<close> is the one throw of the action
  that no call causes: the missing result of a build.)\<close>

definition faithful :: "world \<Rightarrow> bool \<Rightarrow> 'a io \<Rightarrow> bool" where
  "faithful w B m \<longleftrightarrow>
     (case outcome m of
        Inl _ \<Rightarrow> (\<exists>ev \<in> set (events m). call_fails w ev) \<or> B
      | Inr _ \<Rightarrow> (\<forall>ev \<in> set (events m). \<not> call_fails w ev))"

text \<open>Every process the action starts exits with status 0.\<close>

definition all_ok :: "world \<Rightarrow> bool" where
  "all_ok w \<longleftrightarrow> (\<forall>c a d e. exec_outcome w c a d e = None)"

text \<open>The parts of \<open>run_inputs\<close>, named for the proofs (\<open>run_inputs_split\<close> puts them
  together again): what comes before the build, the build, the call of the build tool,
  the manual upload branch, the branch of a build with no result, and what follows the
  build.\<close>

definition prepare :: "world \<Rightarrow> ActionInputs \<Rightarrow> unit io" where
  "prepare w inputs = seq [
       if_then (needsManualUpload inputs)
         (emit (Info (''hf-repo is set to '' @ hfRepo inputs @ '', using build-and-copy + manual upload''))),
       emit (StartGroup ''Install Nix''),
       installNix w (nixMaxJobs inputs) (nixCores inputs) (sandboxMode inputs) (extraNixConf inputs),
       emit EndGroup,
       emit (StartGroup ''Setup Cachix''),
       setupCachix w (cachixName inputs) (cachixAuthToken inputs),
       emit EndGroup,
       emit (StartGroup (if nixCommand inputs = Build then ''Build Kernel'' else ''Run Kernel''))
     ]"

definition build :: "world \<Rightarrow> ActionInputs \<Rightarrow> string option io" where
  "build w inputs =
     buildKernel w (kernelPath inputs) (effectiveBuildTarget inputs) (nixCommand inputs)
       (verbose inputs) (hfRepo inputs)"

definition build_call :: "world \<Rightarrow> ActionInputs \<Rightarrow> event" where
  "build_call w inputs =
     Exec ''nix'' (nix_args (effectiveBuildTarget inputs) (nixCommand inputs) (verbose inputs))
       (Some (path_resolve w (kernelPath inputs))) (Some (nix_env w (hfRepo inputs)))"

definition manual_upload :: "world \<Rightarrow> ActionInputs \<Rightarrow> unit io" where
  "manual_upload w inputs = seq [
             emit (StartGroup ''Upload to Kernel Hub''),
             uploadWithKernelsCli w (kernelPath inputs) (hfRepo inputs),
             emit EndGroup,
             emit (SetOutput ''kernel-path'' []),
             emit (SetOutput ''artifact-name'' (artifactName inputs)),
             emit (Info ''Action completed successfully!'')
           ]"

definition no_result :: "ActionInputs \<Rightarrow> unit io" where
  "no_result inputs = seq [
               emit (Info ''No result to copy/upload (nix run command handled output)''),
               emit (SetOutput ''kernel-path'' []),
               emit (SetOutput ''artifact-name'' (artifactName inputs)),
               emit (Info ''Action completed successfully!'')
             ]"

text \<open>The end of the \<^verbatim>\<open>try\<close> block (lines 312 to 338), reached after a build that
  gave a result and needs no manual upload: the copy, the two outputs, the artifact
  upload, the publish or its warning.\<close>

definition distribute :: "world \<Rightarrow> ActionInputs \<Rightarrow> string \<Rightarrow> unit io" where
  "distribute w inputs resultPath =
     bind (emit (StartGroup ''Copy Kernel''))
       (\<lambda>_. bind (copyKernel w resultPath (artifactName inputs))
       (\<lambda>kernelOutputPath. seq [
          emit (SetOutput ''kernel-path'' kernelOutputPath),
          emit (SetOutput ''artifact-name'' (artifactName inputs)),
          emit EndGroup,
          if_then (uploadArtifact inputs) (seq [
            emit (StartGroup ''Upload Artifact''),
            uploadKernelArtifact w kernelOutputPath (artifactName inputs),
            emit EndGroup
          ]),
          (if publish inputs \<and> hfToken inputs \<noteq> [] \<and> hfRepo inputs \<noteq> [] then seq [
             emit (StartGroup ''Publish to Hugging Face''),
             publishToHuggingFace w kernelOutputPath (hfRepo inputs) (hfToken inputs),
             emit EndGroup
           ]
           else if publish inputs then
             emit (Warning ''Publish requested but hf-token or hf-repo not provided. Skipping publish.'')
           else ret ()),
          emit (Info ''Action completed successfully!'')
        ]))"

definition finish :: "world \<Rightarrow> ActionInputs \<Rightarrow> string option \<Rightarrow> unit io" where
  "finish w inputs resultPath =
     (if needsManualUpload inputs then manual_upload w inputs
      else (case resultPath of None \<Rightarrow> no_result inputs | Some p \<Rightarrow> distribute w inputs p))"

text \<open>For \<^verbatim>\<open>src/index.ts\<close>: its inputs as inputs of the action above (the end of its
  \<^verbatim>\<open>run\<close>, from the copy on, is \<open>distribute\<close> on them), and the parts of its
  \<^verbatim>\<open>run\<close>.\<close>

definition widen :: "IndexInputs \<Rightarrow> ActionInputs" where
  "widen i = \<lparr>
     kernelPath = ix_kernelPath i, buildTarget = ix_buildTarget i, nixCommand = Build,
     verbose = False, artifactName = ix_artifactName i, uploadArtifact = ix_uploadArtifact i,
     cachixName = ix_cachixName i, cachixAuthToken = ix_cachixAuthToken i,
     nixMaxJobs = ix_nixMaxJobs i, nixCores = ix_nixCores i, sandboxMode = ''fallback'',
     extraNixConf = [], hfToken = ix_hfToken i, hfRepo = ix_hfRepo i, publish = ix_publish i
   \<rparr>"

definition index_prepare :: "world \<Rightarrow> IndexInputs \<Rightarrow> unit io" where
  "index_prepare w inputs = seq [
       emit (StartGroup ''Install Nix''),
       index_installNix w (ix_nixMaxJobs inputs) (ix_nixCores inputs),
       emit EndGroup,
       emit (StartGroup ''Setup Cachix''),
       index_setupCachix w (ix_cachixName inputs) (ix_cachixAuthToken inputs),
       emit EndGroup,
       emit (StartGroup ''Build Kernel'')
     ]"

definition index_build :: "world \<Rightarrow> IndexInputs \<Rightarrow> string io" where
  "index_build w inputs = index_buildKernel w (ix_kernelPath inputs) (ix_buildTarget inputs)"

definition index_body :: "world \<Rightarrow> IndexInputs \<Rightarrow> unit io" where
  "index_body w inputs =
     bind (index_prepare w inputs)
       (\<lambda>_. bind (index_build w inputs)
       (\<lambda>resultPath. bind (emit EndGroup)
       (\<lambda>_. distribute w (widen inputs) resultPath)))"

text \<open>The conditions under which the stages before the end of the run do not throw: the
  installer and the cache setup returned; the call of the build tool exited with
  status 0; the direct upload exited with status 0.\<close>

definition environment_ok :: "world \<Rightarrow> ActionInputs \<Rightarrow> bool" where
  "environment_ok w inputs \<longleftrightarrow>
     outcome (installNix w (nixMaxJobs inputs) (nixCores inputs) (sandboxMode inputs) (extraNixConf inputs)) = Inr ()
   \<and> outcome (setupCachix w (cachixName inputs) (cachixAuthToken inputs)) = Inr ()"

definition build_call_ok :: "world \<Rightarrow> ActionInputs \<Rightarrow> bool" where
  "build_call_ok w inputs \<longleftrightarrow>
     exec_outcome w ''nix'' (nix_args (effectiveBuildTarget inputs) (nixCommand inputs) (verbose inputs))
       (Some (path_resolve w (kernelPath inputs))) (Some (nix_env w (hfRepo inputs))) = None"

definition direct_upload_ok :: "world \<Rightarrow> ActionInputs \<Rightarrow> bool" where
  "direct_upload_ok w inputs \<longleftrightarrow>
     exec_outcome w ''nix'' [''run'', ''.#kernels'', ''--'', ''upload'', ''--repo_id'', hfRepo inputs, ''.'']
       (Some (path_resolve w (kernelPath inputs))) None = None"

text \<open>The two conditional steps at the end of \<open>distribute\<close> (\<open>distribute_split\<close> puts
  them back).\<close>

definition upload_step :: "world \<Rightarrow> ActionInputs \<Rightarrow> string \<Rightarrow> unit io" where
  "upload_step w inputs kernelOutputPath =
     if_then (uploadArtifact inputs) (seq [
            emit (StartGroup ''Upload Artifact''),
            uploadKernelArtifact w kernelOutputPath (artifactName inputs),
            emit EndGroup
          ])"

definition publish_step :: "world \<Rightarrow> ActionInputs \<Rightarrow> string \<Rightarrow> unit io" where
  "publish_step w inputs kernelOutputPath =
     (if publish inputs \<and> hfToken inputs \<noteq> [] \<and> hfRepo inputs \<noteq> [] then seq [
             emit (StartGroup ''Publish to Hugging Face''),
             publishToHuggingFace w kernelOutputPath (hfRepo inputs) (hfToken inputs),
             emit EndGroup
           ]
           else if publish inputs then
             emit (Warning ''Publish requested but hf-token or hf-repo not provided. Skipping publish.'')
           else ret ())"

subsection \<open>Concrete worlds\<close>

text \<open>The inputs of a workflow step, as the key-value pairs of its \<^verbatim>\<open>with\<close>.\<close>

definition inputs_of :: "(string \<times> string) list \<Rightarrow> string \<Rightarrow> string" where
  "inputs_of kvs k = (case map_of kvs k of None \<Rightarrow> [] | Some v \<Rightarrow> v)"

text \<open>A world where every collaborator succeeds; \<open>result_exists\<close> says whether the
  build leaves \<^verbatim>\<open>result\<close> behind.\<close>

definition quiet_world :: "(string \<times> string) list \<Rightarrow> bool \<Rightarrow> world" where
  "quiet_world kvs result_exists = \<lparr>
     getInput = inputs_of kvs,
     exec_outcome = (\<lambda>_ _ _ _. None),
     path_resolve = (\<lambda>p. if p = ''.'' then ''/work'' else ''/work/'' @ p),
     path_join = (\<lambda>a b. a @ ''/'' @ b),
     existsSync = (\<lambda>_. result_exists),
     glob_files = (\<lambda>_. Inr [''kernel-output/kernel.so'']),
     uploadArtifact_outcome = (\<lambda>_ _ _. None),
     process_env = [(''HOME'', ''/home/runner'')]
   \<rparr>"

text \<open>The manual upload scenario, with the publish flag and both credentials given.\<close>

definition manual_world :: world where
  "manual_world = quiet_world
     [(''build-target'', ''build-and-upload''), (''hf-repo'', ''org/model''),
      (''hf-token'', ''hf_secret''), (''publish'', ''true'')] True"

definition manual_inputs :: ActionInputs where
  "manual_inputs = \<lparr>
     kernelPath = ''.'', buildTarget = ''build-and-upload'', nixCommand = Build, verbose = True,
     artifactName = ''kernel'', uploadArtifact = True, cachixName = ''huggingface'',
     cachixAuthToken = [], nixMaxJobs = ''4'', nixCores = ''12'', sandboxMode = ''fallback'',
     extraNixConf = [], hfToken = ''hf_secret'', hfRepo = ''org/model'', publish = True
   \<rparr>"



text \<open>The defaults (build mode), and a build that leaves no \<^verbatim>\<open>result\<close> behind.\<close>

definition build_mode_world :: world where
  "build_mode_world = quiet_world [] False"

definition default_inputs :: ActionInputs where
  "default_inputs = \<lparr>
     kernelPath = ''.'', buildTarget = ''ci'', nixCommand = Build, verbose = True,
     artifactName = ''kernel'', uploadArtifact = True, cachixName = ''huggingface'',
     cachixAuthToken = [], nixMaxJobs = ''4'', nixCores = ''12'', sandboxMode = ''fallback'',
     extraNixConf = [], hfToken = [], hfRepo = [], publish = False
   \<rparr>"

text \<open>A mode that is neither \<^verbatim>\<open>build\<close> nor \<^verbatim>\<open>run\<close>.\<close>

definition invalid_mode_world :: world where
  "invalid_mode_world = quiet_world [(''nix-command'', ''develop'')] True"

text \<open>A sandbox mode the \<^verbatim>\<open>switch\<close> does not know.\<close>

definition sandbox_world :: world where
  "sandbox_world = quiet_world [(''sandbox-mode'', ''strict'')] True"

definition sandbox_inputs :: ActionInputs where
  "sandbox_inputs = \<lparr>
     kernelPath = ''.'', buildTarget = ''ci'', nixCommand = Build, verbose = True,
     artifactName = ''kernel'', uploadArtifact = True, cachixName = ''huggingface'',
     cachixAuthToken = [], nixMaxJobs = ''4'', nixCores = ''12'', sandboxMode = ''strict'',
     extraNixConf = [], hfToken = [], hfRepo = [], publish = False
   \<rparr>"

text \<open>The defaults in a world where the build leaves its result, and the same inputs
  with the cache name emptied.\<close>

definition default_world :: world where
  "default_world = quiet_world [] True"

definition no_cache_inputs :: ActionInputs where
  "no_cache_inputs = \<lparr>
     kernelPath = ''.'', buildTarget = ''ci'', nixCommand = Build, verbose = True,
     artifactName = ''kernel'', uploadArtifact = True, cachixName = [],
     cachixAuthToken = [], nixMaxJobs = ''4'', nixCores = ''12'', sandboxMode = ''fallback'',
     extraNixConf = [], hfToken = [], hfRepo = [], publish = False
   \<rparr>"

text \<open>The defaults, the artifact client failing.\<close>

definition upload_fails_world :: world where
  "upload_fails_world = \<lparr>
     getInput = inputs_of [],
     exec_outcome = (\<lambda>_ _ _ _. None),
     path_resolve = (\<lambda>p. if p = ''.'' then ''/work'' else ''/work/'' @ p),
     path_join = (\<lambda>a b. a @ ''/'' @ b),
     existsSync = (\<lambda>_. True),
     glob_files = (\<lambda>_. Inr [''kernel-output/kernel.so'']),
     uploadArtifact_outcome = (\<lambda>_ _ _. Some (Error ''Failed to upload artifact'')),
     process_env = [(''HOME'', ''/home/runner'')]
   \<rparr>"

text \<open>The publish flag without a token: on the manual upload path, and on the ordinary
  path.\<close>

definition publish_manual_world :: world where
  "publish_manual_world = quiet_world
     [(''build-target'', ''build-and-upload''), (''hf-repo'', ''org/model''), (''publish'', ''true'')] True"

definition publish_manual_inputs :: ActionInputs where
  "publish_manual_inputs = \<lparr>
     kernelPath = ''.'', buildTarget = ''build-and-upload'', nixCommand = Build, verbose = True,
     artifactName = ''kernel'', uploadArtifact = True, cachixName = ''huggingface'',
     cachixAuthToken = [], nixMaxJobs = ''4'', nixCores = ''12'', sandboxMode = ''fallback'',
     extraNixConf = [], hfToken = [], hfRepo = ''org/model'', publish = True
   \<rparr>"

definition publish_world :: world where
  "publish_world = quiet_world [(''publish'', ''true'')] True"

definition publish_inputs :: ActionInputs where
  "publish_inputs = \<lparr>
     kernelPath = ''.'', buildTarget = ''ci'', nixCommand = Build, verbose = True,
     artifactName = ''kernel'', uploadArtifact = True, cachixName = ''huggingface'',
     cachixAuthToken = [], nixMaxJobs = ''4'', nixCores = ''12'', sandboxMode = ''fallback'',
     extraNixConf = [], hfToken = [], hfRepo = [], publish = True
   \<rparr>"

section \<open>Lemmas\<close>

subsection \<open>Events and outcomes of the combinators\<close>

declare seq.simps [simp del]

lemma events_ret [simp]: "events (ret x) = []"
  by (simp add: events_def ret_def)

lemma events_throw [simp]: "events (throw e) = []"
  by (simp add: events_def throw_def)

lemma events_emit [simp]: "events (emit ev) = [ev]"
  by (simp add: events_def emit_def)

lemma events_exec [simp]: "events (exec w c a d e) = [Exec c a d e]"
  by (simp add: events_def exec_def)

lemma outcome_ret [simp]: "outcome (ret x) = Inr x"
  by (simp add: outcome_def ret_def)

lemma outcome_throw [simp]: "outcome (throw e) = Inl e"
  by (simp add: outcome_def throw_def)

lemma outcome_emit [simp]: "outcome (emit ev) = Inr ()"
  by (simp add: outcome_def emit_def)

lemma outcome_exec: "outcome (exec w c a d e) = (case exec_outcome w c a d e of None \<Rightarrow> Inr () | Some x \<Rightarrow> Inl x)"
  by (simp add: outcome_def exec_def)

lemma events_bind: "events (bind m f) = (case outcome m of Inl e \<Rightarrow> events m | Inr x \<Rightarrow> events m @ events (f x))"
  by (cases m) (auto simp: events_def outcome_def bind_def split: sum.splits prod.splits)

lemma outcome_bind: "outcome (bind m f) = (case outcome m of Inl e \<Rightarrow> Inl e | Inr x \<Rightarrow> outcome (f x))"
  by (cases m) (auto simp: events_def outcome_def bind_def split: sum.splits prod.splits)

lemma catch_eq: "catch m = events m @ (case outcome m of Inl e \<Rightarrow> [SetFailed (failure_message e)] | Inr _ \<Rightarrow> [])"
  by (cases m) (auto simp: events_def outcome_def catch_def split: sum.splits)

subsection \<open>Events that a computation never produces\<close>

text \<open>A stage produces no event satisfying \<open>P\<close> as soon as \<open>P\<close> holds of none of
  the events it can produce; the lemmas below say so stage by stage, for any \<open>P\<close>.\<close>

lemma never_ret [simp]: "never P (ret x)"
  by (simp add: never_def)

lemma never_throw [simp]: "never P (throw e)"
  by (simp add: never_def)

lemma never_emit [simp]: "never P (emit ev) \<longleftrightarrow> \<not> P ev"
  by (simp add: never_def)

lemma never_exec [simp]: "never P (exec w c a d e) \<longleftrightarrow> \<not> P (Exec c a d e)"
  by (simp add: never_def)

lemma never_bind: "never P m \<Longrightarrow> (\<And>x. never P (f x)) \<Longrightarrow> never P (bind m f)"
  by (auto simp: never_def events_bind split: sum.splits)

lemma never_if_then [simp]: "never P (if_then c m) \<longleftrightarrow> (c \<longrightarrow> never P m)"
  by (simp add: if_then_def)

lemma never_bind_all [simp]: "never P m \<Longrightarrow> \<forall>x. never P (f x) \<Longrightarrow> never P (bind m f)"
  by (simp add: never_bind)

lemma never_seq_all [simp]: "list_all (never P) ms \<Longrightarrow> never P (seq ms)"
  by (induction ms) (auto intro: never_bind simp: seq.simps)

lemma never_installNix:
  "log_free P \<Longrightarrow> \<forall>a. \<not> P (Exec ''curl'' a None None) \<Longrightarrow> \<forall>a. \<not> P (Exec ''sh'' a None None)
   \<Longrightarrow> never P (installNix w mj c sm x)"
  unfolding installNix_def by (rule never_seq_all) (simp add: log_free_def)

lemma never_setupCachix:
  "log_free P \<Longrightarrow> \<forall>a. \<not> P (Exec ''nix-env'' a None None) \<Longrightarrow> \<forall>a. \<not> P (Exec ''cachix'' a None None)
   \<Longrightarrow> never P (setupCachix w name tok)"
  unfolding setupCachix_def by (auto intro!: never_seq_all simp add: log_free_def)

lemma never_buildKernel:
  "log_free P \<Longrightarrow> \<not> P (Exec ''nix'' (nix_args tgt nc v) (Some (path_resolve w kp)) (Some (nix_env w repo)))
   \<Longrightarrow> never P (buildKernel w kp tgt nc v repo)"
  unfolding buildKernel_def Let_def by (auto intro!: never_bind never_seq_all simp add: log_free_def)

lemma never_uploadWithKernelsCli:
  "log_free P \<Longrightarrow> \<not> P (Exec ''nix'' [''run'', ''.#kernels'', ''--'', ''upload'', ''--repo_id'', repo, ''.''] (Some (path_resolve w kp)) None)
   \<Longrightarrow> never P (uploadWithKernelsCli w kp repo)"
  unfolding uploadWithKernelsCli_def by (auto intro!: never_seq_all simp add: log_free_def)

lemma never_copyKernel:
  "log_free P \<Longrightarrow> \<forall>a. \<not> P (Exec ''cp'' a None None) \<Longrightarrow> never P (copyKernel w rp name)"
  unfolding copyKernel_def Let_def by (auto intro!: never_bind never_seq_all simp add: log_free_def)

lemma never_glob [simp]: "never P (glob w pat) \<longleftrightarrow> \<not> P (Glob pat)"
  by (simp add: never_def events_def glob_def)

lemma never_uploadArtifactCall [simp]: "never P (uploadArtifactCall w n fs r) \<longleftrightarrow> \<not> P (UploadArtifactCall n fs r)"
  by (simp add: never_def events_def uploadArtifactCall_def)

lemma never_uploadKernelArtifact:
  "log_free P \<Longrightarrow> \<forall>p. \<not> P (Glob p) \<Longrightarrow> \<forall>n fs r. \<not> P (UploadArtifactCall n fs r)
   \<Longrightarrow> never P (uploadKernelArtifact w out name)"
  unfolding uploadKernelArtifact_def by (auto intro!: never_bind never_seq_all simp add: log_free_def)

lemma never_publishToHuggingFace:
  "log_free P \<Longrightarrow> \<forall>a. \<not> P (Exec ''pip'' a None None) \<Longrightarrow> \<forall>a. \<not> P (Exec ''python'' a None None)
   \<Longrightarrow> never P (publishToHuggingFace w out repo tok)"
  unfolding publishToHuggingFace_def by (auto intro!: never_seq_all simp add: log_free_def)

lemmas never_stage = never_installNix never_setupCachix never_buildKernel never_uploadWithKernelsCli
  never_copyKernel never_uploadKernelArtifact never_publishToHuggingFace

lemma log_free_simps [simp]: "log_free is_SetFailed" "log_free is_SetOutput" "log_free is_artifact_upload"
  "log_free is_hub_publish" "log_free is_packaging" "log_free is_cache_call" "log_free (is_direct_upload r)"
  "log_free is_external"
  by (simp_all add: log_free_def is_hub_publish_def is_packaging_def is_cache_call_def)

subsection \<open>The structure of run\<close>

lemma run_inputs_split:
  "run_inputs w inputs = bind (prepare w inputs) (\<lambda>_. bind (build w inputs) (\<lambda>r. bind (emit EndGroup) (\<lambda>_. finish w inputs r)))"
  unfolding run_inputs_def prepare_def build_def finish_def manual_upload_def no_result_def
    distribute_def
  by (rule refl)

lemma manual_never_artifact_upload: "needsManualUpload inputs \<Longrightarrow> never is_artifact_upload (run_inputs w inputs)"
  by (simp add: run_inputs_split prepare_def build_def finish_def manual_upload_def never_stage)

lemma manual_never_hub_publish: "needsManualUpload inputs \<Longrightarrow> never is_hub_publish (run_inputs w inputs)"
  by (simp add: run_inputs_split prepare_def build_def finish_def manual_upload_def never_stage
      is_hub_publish_def)

lemma never_distribute_SetFailed: "never is_SetFailed (distribute w inputs p)"
  by (simp add: distribute_def never_stage)

lemma never_SetFailed: "never is_SetFailed (run_inputs w inputs)"
  by (simp add: run_inputs_split prepare_def build_def finish_def manual_upload_def no_result_def
      never_stage never_distribute_SetFailed split: option.splits)

lemma events_seq_Nil [simp]: "events (seq []) = []"
  by (simp add: seq.simps)

lemma outcome_seq_Nil [simp]: "outcome (seq []) = Inr ()"
  by (simp add: seq.simps)

lemma events_seq_Cons: "events (seq (m # ms)) = (case outcome m of Inl e \<Rightarrow> events m | Inr _ \<Rightarrow> events m @ events (seq ms))"
  by (simp add: seq.simps events_bind)

lemma outcome_seq_Cons: "outcome (seq (m # ms)) = (case outcome m of Inl e \<Rightarrow> Inl e | Inr _ \<Rightarrow> outcome (seq ms))"
  by (simp add: seq.simps outcome_bind)

lemma events_if_then: "events (if_then c m) = (if c then events m else [])"
  by (simp add: if_then_def)

lemma outcome_if_then: "outcome (if_then c m) = (if c then outcome m else Inr ())"
  by (simp add: if_then_def)

lemmas io_simps = events_bind outcome_bind events_seq_Cons outcome_seq_Cons events_if_then outcome_if_then outcome_exec

lemma outcome_installNix_ok: "all_ok w \<Longrightarrow> outcome (installNix w a b c d) = Inr ()"
  by (simp add: installNix_def io_simps all_ok_def)

lemma outcome_setupCachix_ok: "all_ok w \<Longrightarrow> outcome (setupCachix w a b) = Inr ()"
  by (simp add: setupCachix_def io_simps all_ok_def)

lemma outcome_prepare: "outcome (prepare w inputs) =
   (case outcome (installNix w (nixMaxJobs inputs) (nixCores inputs) (sandboxMode inputs) (extraNixConf inputs)) of
      Inl e \<Rightarrow> Inl e
    | Inr _ \<Rightarrow> outcome (setupCachix w (cachixName inputs) (cachixAuthToken inputs)))"
  by (simp add: prepare_def io_simps split: sum.splits)

lemma outcome_buildKernel:
  "outcome (buildKernel w kp tgt nc v repo) =
     (case exec_outcome w ''nix'' (nix_args tgt nc v) (Some (path_resolve w kp)) (Some (nix_env w repo)) of
        Some e \<Rightarrow> Inl e
      | None \<Rightarrow> if existsSync w (resultPath_of w kp) then Inr (Some (resultPath_of w kp))
                else if nc = Build then Inl (Error (''Build result not found at '' @ resultPath_of w kp))
                else Inr None)"
  by (simp add: buildKernel_def Let_def io_simps split: option.splits)

lemma build_call_in_build: "build_call w inputs \<in> set (events (build w inputs))"
  by (simp add: build_def build_call_def buildKernel_def Let_def io_simps split: option.splits sum.splits)

lemma outcome_manual_upload: "outcome (manual_upload w inputs) = outcome (uploadWithKernelsCli w (kernelPath inputs) (hfRepo inputs))"
  by (simp add: manual_upload_def io_simps split: sum.splits)

lemma events_manual_upload: "events (manual_upload w inputs) =
   StartGroup ''Upload to Kernel Hub'' # events (uploadWithKernelsCli w (kernelPath inputs) (hfRepo inputs))
   @ (case outcome (uploadWithKernelsCli w (kernelPath inputs) (hfRepo inputs)) of Inl _ \<Rightarrow> []
      | Inr _ \<Rightarrow> [EndGroup, SetOutput ''kernel-path'' [], SetOutput ''artifact-name'' (artifactName inputs),
                 Info ''Action completed successfully!''])"
  by (simp add: manual_upload_def io_simps split: sum.splits)

lemma events_run_inputs:
  "events (run_inputs w inputs) =
     events (prepare w inputs) @
     (case outcome (prepare w inputs) of Inl _ \<Rightarrow> []
      | Inr _ \<Rightarrow> events (build w inputs) @
          (case outcome (build w inputs) of Inl _ \<Rightarrow> []
           | Inr r \<Rightarrow> EndGroup # events (finish w inputs r)))"
  by (simp add: run_inputs_split io_simps split: sum.splits)

lemma outcome_run_inputs:
  "outcome (run_inputs w inputs) =
     (case outcome (prepare w inputs) of Inl e \<Rightarrow> Inl e
      | Inr _ \<Rightarrow> (case outcome (build w inputs) of Inl e \<Rightarrow> Inl e
           | Inr r \<Rightarrow> outcome (finish w inputs r)))"
  by (simp add: run_inputs_split io_simps split: sum.splits)

lemma trace_eq:
  "trace w inputs = events (run_inputs w inputs) @
     (case outcome (run_inputs w inputs) of Inl e \<Rightarrow> [SetFailed (failure_message e)] | Inr _ \<Rightarrow> [])"
  by (simp add: trace_def catch_eq)

lemma never_list_ex: "never P m \<Longrightarrow> \<not> list_ex P (events m)"
  by (simp add: never_def list_ex_iff)

lemma failed_trace: "failed (trace w inputs) \<longleftrightarrow> outcome (run_inputs w inputs) \<noteq> Inr ()"
proof (cases "outcome (run_inputs w inputs)")
  case (Inl e)
  then show ?thesis by (simp add: trace_eq failed_def)
next
  case (Inr u)
  then show ?thesis
    using never_SetFailed [of w inputs] by (simp add: trace_eq failed_def never_list_ex)
qed

subsection \<open>Outputs of a trace\<close>

lemma output_of_append:
  "output_of (xs @ ys) name = (case output_of ys name of Some v \<Rightarrow> Some v | None \<Rightarrow> output_of xs name)"
  by (induction xs name rule: output_of.induct) (auto split: option.splits)

lemma output_of_none: "\<forall>ev \<in> set es. \<not> is_SetOutput ev \<Longrightarrow> output_of es name = None"
  by (induction es name rule: output_of.induct) auto

lemma output_of_trace: "output_of (trace w inputs) name = output_of (events (run_inputs w inputs)) name"
  by (simp add: trace_eq output_of_append split: sum.splits)

lemma list_ex_trace:
  "\<forall>m. \<not> P (SetFailed m) \<Longrightarrow> list_ex P (trace w inputs) = list_ex P (events (run_inputs w inputs))"
  by (simp add: trace_eq split: sum.splits)

lemma never_prepare:
  "log_free P \<Longrightarrow> \<forall>a. \<not> P (Exec ''curl'' a None None) \<Longrightarrow> \<forall>a. \<not> P (Exec ''sh'' a None None)
   \<Longrightarrow> cachixName inputs \<noteq> [] \<longrightarrow> (\<forall>a. \<not> P (Exec ''nix-env'' a None None)) \<and> (\<forall>a. \<not> P (Exec ''cachix'' a None None))
   \<Longrightarrow> never P (prepare w inputs)"
  by (cases "cachixName inputs = []") (simp_all add: prepare_def never_stage log_free_def setupCachix_def)

lemma never_build: "log_free P \<Longrightarrow> \<not> P (build_call w inputs) \<Longrightarrow> never P (build w inputs)"
  by (simp add: build_def build_call_def never_stage)

lemma upload_call_in_events:
  "Exec ''nix'' [''run'', ''.#kernels'', ''--'', ''upload'', ''--repo_id'', repo, ''.''] (Some (path_resolve w kp)) None
     \<in> set (events (uploadWithKernelsCli w kp repo))"
  by (simp add: uploadWithKernelsCli_def io_simps split: option.splits)

lemma outcome_uploadWithKernelsCli:
  "outcome (uploadWithKernelsCli w kp repo) =
     (case exec_outcome w ''nix'' [''run'', ''.#kernels'', ''--'', ''upload'', ''--repo_id'', repo, ''.'']
             (Some (path_resolve w kp)) None of None \<Rightarrow> Inr () | Some e \<Rightarrow> Inl e)"
  by (simp add: uploadWithKernelsCli_def io_simps split: option.splits)

lemma never_finish_manual:
  "needsManualUpload inputs \<Longrightarrow> log_free P \<Longrightarrow> \<forall>k v. \<not> P (SetOutput k v)
   \<Longrightarrow> \<not> P (Exec ''nix'' [''run'', ''.#kernels'', ''--'', ''upload'', ''--repo_id'', hfRepo inputs, ''.''] (Some (path_resolve w (kernelPath inputs))) None)
   \<Longrightarrow> never P (finish w inputs r)"
  by (simp add: finish_def manual_upload_def never_stage log_free_def)

lemma never_run_inputs:
  "never P (prepare w inputs) \<Longrightarrow> never P (build w inputs) \<Longrightarrow> \<not> P EndGroup \<Longrightarrow> \<forall>r. never P (finish w inputs r)
   \<Longrightarrow> never P (run_inputs w inputs)"
  by (simp add: run_inputs_split)

lemma never_trace:
  "never P (run_inputs w inputs) \<Longrightarrow> \<forall>m. \<not> P (SetFailed m) \<Longrightarrow> \<forall>ev \<in> set (trace w inputs). \<not> P ev"
  by (auto simp: trace_eq never_def split: sum.splits)

subsection \<open>The manual upload path\<close>

lemma manual_success:
  assumes "needsManualUpload inputs" and "\<not> failed (trace w inputs)"
  shows "list_ex (is_direct_upload (hfRepo inputs)) (trace w inputs)
       \<and> output_of (trace w inputs) ''kernel-path'' = Some []
       \<and> output_of (trace w inputs) ''artifact-name'' = Some (artifactName inputs)"
proof -
  let ?up = "uploadWithKernelsCli w (kernelPath inputs) (hfRepo inputs)"
  from assms(2) have ok: "outcome (run_inputs w inputs) = Inr ()"
    by (simp add: failed_trace)
  then obtain r where p: "outcome (prepare w inputs) = Inr ()" and b: "outcome (build w inputs) = Inr r"
    and u: "outcome ?up = Inr ()"
    using assms(1) by (auto simp: outcome_run_inputs finish_def outcome_manual_upload split: sum.splits)
  have ev: "events (run_inputs w inputs) =
      (events (prepare w inputs) @ events (build w inputs) @ [EndGroup, StartGroup ''Upload to Kernel Hub''] @ events ?up)
      @ [EndGroup, SetOutput ''kernel-path'' [], SetOutput ''artifact-name'' (artifactName inputs),
         Info ''Action completed successfully!'']"
    using assms(1) p b u by (simp add: events_run_inputs finish_def events_manual_upload)
  have "\<exists>ev \<in> set (events ?up). is_direct_upload (hfRepo inputs) ev"
    using upload_call_in_events [of "hfRepo inputs" w "kernelPath inputs"] by (rule bexI [rotated]) simp
  then have "list_ex (is_direct_upload (hfRepo inputs)) (trace w inputs)"
    by (auto simp: list_ex_iff trace_eq ev)
  moreover have "output_of (trace w inputs) ''kernel-path'' = Some []"
    unfolding output_of_trace ev by (subst output_of_append) simp
  moreover have "output_of (trace w inputs) ''artifact-name'' = Some (artifactName inputs)"
    unfolding output_of_trace ev by (subst output_of_append) simp
  ultimately show ?thesis by simp
qed

lemma outcome_prepare_iff: "outcome (prepare w inputs) = Inr () \<longleftrightarrow> environment_ok w inputs"
  by (simp add: outcome_prepare environment_ok_def split: sum.splits)

lemma manual_failed_iff:
  assumes "needsManualUpload inputs"
  shows "\<not> failed (trace w inputs) \<longleftrightarrow>
     environment_ok w inputs \<and> build_call_ok w inputs
     \<and> (nixCommand inputs = Run \<or> existsSync w (resultPath_of w (kernelPath inputs)))
     \<and> direct_upload_ok w inputs"
proof (cases "outcome (prepare w inputs)")
  case (Inl e)
  then show ?thesis
    using outcome_prepare_iff [of w inputs] by (simp add: failed_trace outcome_run_inputs)
next
  case (Inr u)
  then have "environment_ok w inputs"
    by (simp add: outcome_prepare_iff [symmetric])
  with Inr assms show ?thesis
    by (cases "nixCommand inputs")
       (simp_all add: failed_trace outcome_run_inputs build_def outcome_buildKernel build_call_ok_def
          finish_def outcome_manual_upload outcome_uploadWithKernelsCli direct_upload_ok_def
          split: option.splits)
qed

lemma all_ok_stages:
  assumes "all_ok w"
  shows "environment_ok w inputs" "build_call_ok w inputs" "direct_upload_ok w inputs"
  using assms
  by (simp_all add: environment_ok_def build_call_ok_def direct_upload_ok_def
      outcome_installNix_ok outcome_setupCachix_ok all_ok_def)

lemma events_uploadWithKernelsCli_ok:
  "outcome (uploadWithKernelsCli w kp repo) = Inr () \<Longrightarrow>
   events (uploadWithKernelsCli w kp repo) = [Info (''Uploading to Kernel Hub: '' @ repo),
      Exec ''nix'' [''run'', ''.#kernels'', ''--'', ''upload'', ''--repo_id'', repo, ''.'']
              (Some (path_resolve w kp)) None,
      Info (''Kernel uploaded to https://hf.co/'' @ repo)]"
  by (simp add: uploadWithKernelsCli_def io_simps split: option.splits)

lemma manual_trace:
  assumes m: "needsManualUpload inputs" and ok: "\<not> failed (trace w inputs)"
  shows "trace w inputs =
      (events (prepare w inputs) @ events (build w inputs)
         @ [EndGroup, StartGroup ''Upload to Kernel Hub'', Info (''Uploading to Kernel Hub: '' @ hfRepo inputs)])
      @ [Exec ''nix'' [''run'', ''.#kernels'', ''--'', ''upload'', ''--repo_id'', hfRepo inputs, ''.'']
              (Some (path_resolve w (kernelPath inputs))) None,
            Info (''Kernel uploaded to https://hf.co/'' @ hfRepo inputs),
            EndGroup,
            SetOutput ''kernel-path'' [],
            SetOutput ''artifact-name'' (artifactName inputs),
            Info ''Action completed successfully!'']"
proof -
  let ?up = "uploadWithKernelsCli w (kernelPath inputs) (hfRepo inputs)"
  from ok have ok': "outcome (run_inputs w inputs) = Inr ()"
    by (simp add: failed_trace)
  with m obtain r where p: "outcome (prepare w inputs) = Inr ()"
    and b: "outcome (build w inputs) = Inr r" and u: "outcome ?up = Inr ()"
    by (auto simp: outcome_run_inputs finish_def outcome_manual_upload split: sum.splits)
  note e = events_uploadWithKernelsCli_ok [OF u]
  show ?thesis
    unfolding trace_eq ok' events_run_inputs p b using m u e
    by (simp add: finish_def events_manual_upload)
qed

lemma run_trace: "getInputs w = Inr inputs \<Longrightarrow> run w = trace w inputs"
  by (simp add: run_def trace_def bind_def)

lemma getInputs_manual_world: "getInputs manual_world = Inr manual_inputs"
  by (simp add: getInputs_def manual_world_def quiet_world_def inputs_of_def or_default_def
      manual_inputs_def)

lemma never_distribute:
  "log_free P \<Longrightarrow> \<forall>k v. \<not> P (SetOutput k v) \<Longrightarrow> \<forall>s. \<not> P (Warning s)
   \<Longrightarrow> \<forall>a. \<not> P (Exec ''cp'' a None None)
   \<Longrightarrow> uploadArtifact inputs \<longrightarrow> (\<forall>p. \<not> P (Glob p)) \<and> (\<forall>n fs r. \<not> P (UploadArtifactCall n fs r))
   \<Longrightarrow> publish inputs \<and> hfToken inputs \<noteq> [] \<and> hfRepo inputs \<noteq> [] \<longrightarrow>
         (\<forall>a. \<not> P (Exec ''pip'' a None None)) \<and> (\<forall>a. \<not> P (Exec ''python'' a None None))
   \<Longrightarrow> never P (distribute w inputs p)"
  by (simp add: distribute_def never_stage log_free_def)

lemma never_no_result:
  "log_free P \<Longrightarrow> \<forall>k v. \<not> P (SetOutput k v) \<Longrightarrow> never P (no_result inputs)"
  by (simp add: no_result_def log_free_def)

lemma nix_args_not_upload:
  "nix_args tgt nc v \<noteq> [''run'', ''.#kernels'', ''--'', ''upload'', ''--repo_id'', repo, ''.'']"
  by (simp add: nix_args_def)

lemma no_direct_upload:
  assumes "\<not> needsManualUpload inputs"
  shows "\<not> list_ex (is_direct_upload repo) (trace w inputs)"
proof -
  have "never (is_direct_upload repo) (run_inputs w inputs)"
    by (rule never_run_inputs)
       (simp_all add: never_prepare never_build build_call_def nix_args_not_upload finish_def
          never_distribute never_no_result assms split: option.splits)
  then show ?thesis
    by (simp add: list_ex_trace never_list_ex)
qed

lemma all_ok_quiet_world: "all_ok (quiet_world kvs b)"
  by (simp add: all_ok_def quiet_world_def)

subsection \<open>A build that leaves no result\<close>

lemma never_run_inputs_result:
  "never P (prepare w inputs) \<Longrightarrow> never P (build w inputs) \<Longrightarrow> \<not> P EndGroup
   \<Longrightarrow> \<forall>r. outcome (build w inputs) = Inr r \<longrightarrow> never P (finish w inputs r)
   \<Longrightarrow> never P (run_inputs w inputs)"
proof -
  assume a: "never P (prepare w inputs)" "never P (build w inputs)" "\<not> P EndGroup"
    "\<forall>r. outcome (build w inputs) = Inr r \<longrightarrow> never P (finish w inputs r)"
  show ?thesis
  proof (cases "outcome (prepare w inputs)")
    case (Inl e)
    with a show ?thesis by (simp add: never_def events_run_inputs)
  next
    case p: (Inr u)
    show ?thesis
    proof (cases "outcome (build w inputs)")
      case (Inl e)
      with p a show ?thesis by (auto simp: never_def events_run_inputs)
    next
      case (Inr r)
      with p a show ?thesis by (auto simp: never_def events_run_inputs)
    qed
  qed
qed

lemma never_manual_upload:
  "log_free P \<Longrightarrow> \<forall>k v. \<not> P (SetOutput k v)
   \<Longrightarrow> \<not> P (Exec ''nix'' [''run'', ''.#kernels'', ''--'', ''upload'', ''--repo_id'', hfRepo inputs, ''.''] (Some (path_resolve w (kernelPath inputs))) None)
   \<Longrightarrow> never P (manual_upload w inputs)"
  by (simp add: manual_upload_def never_stage log_free_def)



lemma events_no_result:
  "events (no_result inputs) =
     [Info ''No result to copy/upload (nix run command handled output)'',
      SetOutput ''kernel-path'' [], SetOutput ''artifact-name'' (artifactName inputs),
      Info ''Action completed successfully!'']"
  by (simp add: no_result_def io_simps)

lemma outcome_no_result: "outcome (no_result inputs) = Inr ()"
  by (simp add: no_result_def io_simps)



lemma outcome_build_build_no_result:
  assumes "nixCommand inputs = Build" and "\<not> existsSync w (resultPath_of w (kernelPath inputs))"
  shows "outcome (build w inputs)
       = (case exec_outcome w ''nix'' (nix_args (effectiveBuildTarget inputs) Build (verbose inputs))
                 (Some (path_resolve w (kernelPath inputs))) (Some (nix_env w (hfRepo inputs))) of
            None \<Rightarrow> Inl (Error (''Build result not found at '' @ resultPath_of w (kernelPath inputs)))
          | Some e \<Rightarrow> Inl e)"
  using assms by (simp add: build_def outcome_buildKernel)

lemma build_no_result_never:
  assumes b: "nixCommand inputs = Build" and ne: "\<not> existsSync w (resultPath_of w (kernelPath inputs))"
    and p: "never P (prepare w inputs)" "never P (build w inputs)" "\<not> P EndGroup" "\<forall>m. \<not> P (SetFailed m)"
  shows "\<not> list_ex P (trace w inputs)"
proof -
  have "outcome (build w inputs) \<noteq> Inr r" for r
    by (simp add: outcome_build_build_no_result [OF b ne] split: option.splits)
  then have "never P (run_inputs w inputs)"
    using p by (simp add: never_run_inputs_result)
  then show ?thesis
    using p by (simp add: list_ex_trace never_list_ex)
qed

lemma build_no_result_failed:
  assumes b: "nixCommand inputs = Build" and ne: "\<not> existsSync w (resultPath_of w (kernelPath inputs))"
  shows "failed (trace w inputs)"
  by (simp add: failed_trace outcome_run_inputs outcome_build_build_no_result [OF b ne]
      split: sum.splits option.splits)

lemma build_no_result_message:
  assumes b: "nixCommand inputs = Build" and ne: "\<not> existsSync w (resultPath_of w (kernelPath inputs))"
    and e: "environment_ok w inputs" and x: "build_call_ok w inputs"
  shows "last (trace w inputs) = SetFailed (''Build result not found at '' @ resultPath_of w (kernelPath inputs))"
  using e x b
  by (simp add: trace_eq outcome_run_inputs outcome_prepare environment_ok_def build_call_ok_def
      outcome_build_build_no_result [OF b ne])


lemma getInputs_build_mode_world: "getInputs build_mode_world = Inr default_inputs"
  by (simp add: getInputs_def build_mode_world_def quiet_world_def inputs_of_def or_default_def
      default_inputs_def)

subsection \<open>The inputs, the installer, the cache\<close>

lemma getInputs_invalid:
  assumes "getInput w ''nix-command'' \<noteq> []" "getInput w ''nix-command'' \<noteq> ''build''" "getInput w ''nix-command'' \<noteq> ''run''"
  shows "getInputs w = Inl (Error (''Invalid nix-command: '' @ getInput w ''nix-command'' @ ''. Must be 'build' or 'run'.''))"
  using assms by (simp add: getInputs_def or_default_def)

lemma events_installNix_subset:
  "set (events (installNix w maxJobs cores m extra)) \<subseteq>
     {Info ''Installing Nix...'',
      Exec ''curl'' [''--proto'', ''=https'', ''--tlsv1.2'', ''-sSf'', ''-L'',
                        ''https://install.determinate.systems/nix'', ''-o'', ''/tmp/nix-installer.sh''] None None,
      Exec ''sh'' [''/tmp/nix-installer.sh'', ''install'', ''--no-confirm'', ''--extra-conf'',
                   extraConf maxJobs cores m extra] None None,
      AddPath ''/nix/var/nix/profiles/default/bin'',
      Info ''Nix installed successfully''}"
  by (simp add: installNix_def io_simps split: option.splits)

lemma installer_calls:
  assumes "ev \<in> set (events (installNix w maxJobs cores m extra))" and "exec_of ''sh'' ev"
  shows "ev = Exec ''sh'' [''/tmp/nix-installer.sh'', ''install'', ''--no-confirm'', ''--extra-conf'',
                   extraConf maxJobs cores m extra] None None"
proof -
  from assms(1) events_installNix_subset [of w maxJobs cores m extra]
  have "ev \<in> {Info ''Installing Nix...'',
      Exec ''curl'' [''--proto'', ''=https'', ''--tlsv1.2'', ''-sSf'', ''-L'',
                        ''https://install.determinate.systems/nix'', ''-o'', ''/tmp/nix-installer.sh''] None None,
      Exec ''sh'' [''/tmp/nix-installer.sh'', ''install'', ''--no-confirm'', ''--extra-conf'',
                   extraConf maxJobs cores m extra] None None,
      AddPath ''/nix/var/nix/profiles/default/bin'',
      Info ''Nix installed successfully''}"
    by (rule subsetD [rotated])
  with assms(2) show ?thesis
    by (elim insertE emptyE) simp_all
qed

lemma never_prepare_stages:
  "log_free P
   \<Longrightarrow> never P (installNix w (nixMaxJobs inputs) (nixCores inputs) (sandboxMode inputs) (extraNixConf inputs))
   \<Longrightarrow> never P (setupCachix w (cachixName inputs) (cachixAuthToken inputs))
   \<Longrightarrow> never P (prepare w inputs)"
  by (simp add: prepare_def log_free_def)

lemma installer_call_of_run:
  "\<forall>ev \<in> set (trace w inputs). exec_of ''sh'' ev \<longrightarrow>
      ev = Exec ''sh'' [''/tmp/nix-installer.sh'', ''install'', ''--no-confirm'', ''--extra-conf'',
             extraConf (nixMaxJobs inputs) (nixCores inputs) (sandboxMode inputs) (extraNixConf inputs)]
             None None"
proof -
  let ?c = "Exec ''sh'' [''/tmp/nix-installer.sh'', ''install'', ''--no-confirm'', ''--extra-conf'',
             extraConf (nixMaxJobs inputs) (nixCores inputs) (sandboxMode inputs) (extraNixConf inputs)]
             None None"
  let ?P = "\<lambda>ev. exec_of ''sh'' ev \<and> ev \<noteq> ?c"
  have lf: "log_free ?P"
    by (simp add: log_free_def)
  have "never ?P (installNix w (nixMaxJobs inputs) (nixCores inputs) (sandboxMode inputs) (extraNixConf inputs))"
    unfolding never_def using installer_calls by blast
  then have "never ?P (prepare w inputs)"
    by (intro never_prepare_stages lf) (simp_all add: never_setupCachix lf)
  then have "never ?P (run_inputs w inputs)"
    by (rule never_run_inputs)
       (simp_all add: never_build build_call_def lf finish_def never_manual_upload never_no_result
          never_distribute split: option.splits)
  then have "\<forall>ev \<in> set (trace w inputs). \<not> ?P ev"
    by (rule never_trace) simp
  then show ?thesis by blast
qed

lemma no_cache_name_never:
  assumes c: "cachixName inputs = []"
  shows "\<not> list_ex is_cache_call (trace w inputs)"
proof -
  have lf: "log_free is_cache_call"
    by simp
  have x: "\<not> is_cache_call (Exec c a d e)"
    if "c \<noteq> ''nix-env''" "c \<noteq> ''cachix''" for c a d e
    using that by (simp add: is_cache_call_def)
  have "never is_cache_call (prepare w inputs)"
    by (rule never_prepare) (simp_all add: c x)
  moreover have "never is_cache_call (build w inputs)"
    by (rule never_build) (simp_all add: build_call_def x)
  moreover have "never is_cache_call (finish w inputs r)" for r
    by (simp add: finish_def never_manual_upload never_no_result never_distribute x is_cache_call_def
        split: option.splits)
  ultimately have "never is_cache_call (run_inputs w inputs)"
    by (intro never_run_inputs) (simp_all add: is_cache_call_def)
  then show ?thesis
    by (simp add: list_ex_trace never_list_ex is_cache_call_def)
qed

lemma getInputs_Inr:
  assumes "getInputs w = Inr cfg"
  shows "cfg = \<lparr>
        kernelPath = or_default (getInput w ''kernel-path'') ''.'',
        buildTarget = or_default (getInput w ''build-target'') ''ci'',
        nixCommand = (if or_default (getInput w ''nix-command'') ''build'' = ''build'' then Build else Run),
        verbose = (getInput w ''verbose'' \<noteq> ''false''),
        artifactName = or_default (getInput w ''artifact-name'') ''kernel'',
        uploadArtifact = (getInput w ''upload-artifact'' \<noteq> ''false''),
        cachixName = or_default (getInput w ''cachix-name'') ''huggingface'',
        cachixAuthToken = or_default (getInput w ''cachix-auth-token'') [],
        nixMaxJobs = or_default (getInput w ''nix-max-jobs'') ''4'',
        nixCores = or_default (getInput w ''nix-cores'') ''12'',
        sandboxMode = or_default (getInput w ''sandbox-mode'') ''fallback'',
        extraNixConf = or_default (getInput w ''extra-nix-conf'') [],
        hfToken = or_default (getInput w ''hf-token'') [],
        hfRepo = or_default (getInput w ''hf-repo'') [],
        publish = (getInput w ''publish'' = ''true'')
      \<rparr>"
  using assms by (simp add: getInputs_def Let_def split: if_splits)

lemma or_default_if: "or_default a b = (if a = [] then b else a)"
  by (simp add: or_default_def)

lemma or_default_Nil: "or_default a [] = a"
  by (simp add: or_default_def)

lemma getInputs_cachixName: "getInputs w = Inr cfg \<Longrightarrow> cachixName cfg \<noteq> []"
  by (drule getInputs_Inr) (simp add: or_default_def)

lemma getInputs_sandbox_world: "getInputs sandbox_world = Inr sandbox_inputs"
  by (simp add: getInputs_def sandbox_world_def quiet_world_def inputs_of_def or_default_def
      sandbox_inputs_def)

lemma getInputs_default_world: "getInputs default_world = Inr default_inputs"
  by (simp add: getInputs_def default_world_def quiet_world_def inputs_of_def or_default_def
      default_inputs_def)

lemma installer_call_in_trace:
  assumes "all_ok w"
  shows "Exec ''sh'' [''/tmp/nix-installer.sh'', ''install'', ''--no-confirm'', ''--extra-conf'',
             extraConf (nixMaxJobs inputs) (nixCores inputs) (sandboxMode inputs) (extraNixConf inputs)]
             None None \<in> set (trace w inputs)"
proof -
  have "Exec ''sh'' [''/tmp/nix-installer.sh'', ''install'', ''--no-confirm'', ''--extra-conf'',
             extraConf (nixMaxJobs inputs) (nixCores inputs) (sandboxMode inputs) (extraNixConf inputs)]
             None None
        \<in> set (events (installNix w (nixMaxJobs inputs) (nixCores inputs) (sandboxMode inputs) (extraNixConf inputs)))"
    using assms by (simp add: installNix_def io_simps all_ok_def)
  then have "Exec ''sh'' [''/tmp/nix-installer.sh'', ''install'', ''--no-confirm'', ''--extra-conf'',
             extraConf (nixMaxJobs inputs) (nixCores inputs) (sandboxMode inputs) (extraNixConf inputs)]
             None None \<in> set (events (prepare w inputs))"
    by (simp add: prepare_def io_simps split: sum.splits)
  then show ?thesis
    by (simp add: trace_eq events_run_inputs)
qed

subsection \<open>The end of the run: copy, artifact upload, publish\<close>

text \<open>A run ends in one of six ways (\<open>trace_cases\<close>): the preparation throws, the build
  throws, the manual upload is made, the build gave no result, the copy throws, or the
  copy is made and the outputs are set before the upload and the publish.\<close>

lemma distribute_split:
  "distribute w inputs p =
     bind (emit (StartGroup ''Copy Kernel''))
       (\<lambda>_. bind (copyKernel w p (artifactName inputs))
       (\<lambda>kernelOutputPath. seq [
          emit (SetOutput ''kernel-path'' kernelOutputPath),
          emit (SetOutput ''artifact-name'' (artifactName inputs)),
          emit EndGroup,
          upload_step w inputs kernelOutputPath,
          publish_step w inputs kernelOutputPath,
          emit (Info ''Action completed successfully!'')
        ]))"
  unfolding distribute_def upload_step_def publish_step_def
  by (rule refl)

lemma outcome_copyKernel:
  "outcome (copyKernel w p name) =
     (case exec_outcome w ''cp'' [''-rL'', p, name @ ''-output''] None None of
        None \<Rightarrow> Inr (name @ ''-output'') | Some e \<Rightarrow> Inl e)"
  by (simp add: copyKernel_def Let_def io_simps split: option.splits)

lemma copy_call_in_events:
  "Exec ''cp'' [''-rL'', p, name @ ''-output''] None None \<in> set (events (copyKernel w p name))"
  by (simp add: copyKernel_def Let_def io_simps split: option.splits sum.splits)

lemma events_distribute:
  "events (distribute w inputs p) =
     StartGroup ''Copy Kernel'' # events (copyKernel w p (artifactName inputs)) @
     (case outcome (copyKernel w p (artifactName inputs)) of Inl _ \<Rightarrow> []
      | Inr out \<Rightarrow>
          [SetOutput ''kernel-path'' out, SetOutput ''artifact-name'' (artifactName inputs), EndGroup]
          @ events (upload_step w inputs out)
          @ (case outcome (upload_step w inputs out) of Inl _ \<Rightarrow> []
             | Inr _ \<Rightarrow> events (publish_step w inputs out)
                 @ (case outcome (publish_step w inputs out) of Inl _ \<Rightarrow> []
                    | Inr _ \<Rightarrow> [Info ''Action completed successfully!''])))"
  by (simp add: distribute_split io_simps split: sum.splits)

lemma outcome_distribute:
  "outcome (distribute w inputs p) =
     (case outcome (copyKernel w p (artifactName inputs)) of Inl e \<Rightarrow> Inl e
      | Inr out \<Rightarrow>
          (case outcome (upload_step w inputs out) of Inl e \<Rightarrow> Inl e
           | Inr _ \<Rightarrow> outcome (publish_step w inputs out)))"
  by (simp add: distribute_split io_simps split: sum.splits)

lemma never_upload_step:
  "log_free P \<Longrightarrow> uploadArtifact inputs \<longrightarrow> (\<forall>p. \<not> P (Glob p)) \<and> (\<forall>n fs r. \<not> P (UploadArtifactCall n fs r))
   \<Longrightarrow> never P (upload_step w inputs out)"
  by (simp add: upload_step_def never_stage log_free_def)

lemma never_publish_step:
  "log_free P \<Longrightarrow> \<forall>s. \<not> P (Warning s)
   \<Longrightarrow> publish inputs \<and> hfToken inputs \<noteq> [] \<and> hfRepo inputs \<noteq> [] \<longrightarrow>
         (\<forall>a. \<not> P (Exec ''pip'' a None None)) \<and> (\<forall>a. \<not> P (Exec ''python'' a None None))
   \<Longrightarrow> never P (publish_step w inputs out)"
  by (simp add: publish_step_def never_stage log_free_def)

lemma events_glob [simp]: "events (glob w pat) = [Glob pat]"
  by (simp add: events_def glob_def)

lemma outcome_glob [simp]: "outcome (glob w pat) = glob_files w pat"
  by (simp add: outcome_def glob_def)

lemma events_uploadArtifactCall [simp]:
  "events (uploadArtifactCall w n fs r) = [UploadArtifactCall n fs r]"
  by (simp add: events_def uploadArtifactCall_def)

lemma outcome_uploadArtifactCall:
  "outcome (uploadArtifactCall w n fs r) =
     (case uploadArtifact_outcome w n fs r of None \<Rightarrow> Inr () | Some e \<Rightarrow> Inl e)"
  by (simp add: outcome_def uploadArtifactCall_def)

lemma upload_step_failed:
  assumes "outcome (upload_step w inputs out) = Inl e"
  shows "list_ex is_artifact_upload (events (upload_step w inputs out))"
proof -
  from assms have u: "uploadArtifact inputs"
    by (auto simp: upload_step_def if_then_def split: if_splits)
  then show ?thesis
    by (simp add: upload_step_def uploadKernelArtifact_def io_simps split: sum.splits)
qed

lemma publish_step_failed:
  assumes "outcome (publish_step w inputs out) = Inl e"
  shows "list_ex is_hub_publish (events (publish_step w inputs out))"
proof -
  from assms have u: "publish inputs \<and> hfToken inputs \<noteq> [] \<and> hfRepo inputs \<noteq> []"
    by (auto simp: publish_step_def split: if_splits)
  then show ?thesis
    by (simp add: publish_step_def publishToHuggingFace_def is_hub_publish_def io_simps
        split: sum.splits option.splits)
qed

lemma copyKernel_Inr:
  "outcome (copyKernel w p name) = Inr out \<Longrightarrow> out = name @ ''-output''"
  by (simp add: outcome_copyKernel split: option.splits)

lemma trace_cases [case_names prepare_failed build_failed manual no_result copy_failed copied]:
  obtains
    e where "outcome (prepare w inputs) = Inl e"
      "events (run_inputs w inputs) = events (prepare w inputs)"
      "outcome (run_inputs w inputs) = Inl e"
  | e where "outcome (build w inputs) = Inl e"
      "events (run_inputs w inputs) = events (prepare w inputs) @ events (build w inputs)"
      "outcome (run_inputs w inputs) = Inl e"
  | "needsManualUpload inputs"
      "events (run_inputs w inputs) =
         events (prepare w inputs) @ events (build w inputs) @ EndGroup # events (manual_upload w inputs)"
      "outcome (run_inputs w inputs) = outcome (manual_upload w inputs)"
  | "\<not> needsManualUpload inputs"
      "events (run_inputs w inputs) =
         events (prepare w inputs) @ events (build w inputs) @ EndGroup # events (no_result inputs)"
      "outcome (run_inputs w inputs) = Inr ()"
  | p e where "\<not> needsManualUpload inputs"
      "events (run_inputs w inputs) =
         events (prepare w inputs) @ events (build w inputs) @ EndGroup # StartGroup ''Copy Kernel''
           # events (copyKernel w p (artifactName inputs))"
      "outcome (run_inputs w inputs) = Inl e"
  | p where "\<not> needsManualUpload inputs"
      "events (run_inputs w inputs) =
         (events (prepare w inputs) @ events (build w inputs) @ EndGroup # StartGroup ''Copy Kernel''
           # events (copyKernel w p (artifactName inputs)))
         @ [SetOutput ''kernel-path'' (artifactName inputs @ ''-output''),
            SetOutput ''artifact-name'' (artifactName inputs), EndGroup]
         @ events (upload_step w inputs (artifactName inputs @ ''-output''))
         @ (case outcome (upload_step w inputs (artifactName inputs @ ''-output'')) of Inl _ \<Rightarrow> []
            | Inr _ \<Rightarrow> events (publish_step w inputs (artifactName inputs @ ''-output''))
                @ (case outcome (publish_step w inputs (artifactName inputs @ ''-output'')) of Inl _ \<Rightarrow> []
                   | Inr _ \<Rightarrow> [Info ''Action completed successfully!'']))"
      "outcome (run_inputs w inputs) =
         (case outcome (upload_step w inputs (artifactName inputs @ ''-output'')) of Inl e \<Rightarrow> Inl e
          | Inr _ \<Rightarrow> outcome (publish_step w inputs (artifactName inputs @ ''-output'')))"
proof (cases "outcome (prepare w inputs)")
  case (Inl e)
  then show ?thesis
    by (intro that(1) [of e]) (simp_all add: events_run_inputs outcome_run_inputs)
next
  case p: (Inr u)
  show ?thesis
  proof (cases "outcome (build w inputs)")
    case (Inl e)
    with p show ?thesis
      by (intro that(2) [of e]) (simp_all add: events_run_inputs outcome_run_inputs)
  next
    case b: (Inr r)
    show ?thesis
    proof (cases "needsManualUpload inputs")
      case True
      with p b show ?thesis
        by (intro that(3)) (simp_all add: events_run_inputs outcome_run_inputs finish_def)
    next
      case m: False
      show ?thesis
      proof (cases r)
        case None
        with p b m show ?thesis
          by (intro that(4)) (simp_all add: events_run_inputs outcome_run_inputs finish_def outcome_no_result)
      next
        case (Some path)
        show ?thesis
        proof (cases "outcome (copyKernel w path (artifactName inputs))")
          case (Inl e)
          with p b m Some show ?thesis
            by (intro that(5) [of path e])
               (simp_all add: events_run_inputs outcome_run_inputs finish_def events_distribute outcome_distribute)
        next
          case (Inr out)
          with copyKernel_Inr [OF Inr] p b m Some show ?thesis
            by (intro that(6) [of path])
               (simp_all add: events_run_inputs outcome_run_inputs finish_def events_distribute outcome_distribute)
        qed
      qed
    qed
  qed
qed

lemma events_manual_upload_failed:
  "outcome (manual_upload w inputs) = Inl e \<Longrightarrow>
   events (manual_upload w inputs)
     = StartGroup ''Upload to Kernel Hub'' # events (uploadWithKernelsCli w (kernelPath inputs) (hfRepo inputs))"
  by (simp add: events_manual_upload outcome_manual_upload)

lemma output_of_set:
  assumes "\<not> list_ex is_SetOutput B"
  shows "output_of (A @ [SetOutput ''kernel-path'' a, SetOutput ''artifact-name'' b, EndGroup] @ B) ''kernel-path'' = Some a"
    and "output_of (A @ [SetOutput ''kernel-path'' a, SetOutput ''artifact-name'' b, EndGroup] @ B) ''artifact-name'' = Some b"
proof -
  from assms have n: "output_of B name = None" for name
    by (simp add: output_of_none list_ex_iff)
  show "output_of (A @ [SetOutput ''kernel-path'' a, SetOutput ''artifact-name'' b, EndGroup] @ B) ''kernel-path'' = Some a"
    by (subst output_of_append) (simp add: n)
  show "output_of (A @ [SetOutput ''kernel-path'' a, SetOutput ''artifact-name'' b, EndGroup] @ B) ''artifact-name'' = Some b"
    by (subst output_of_append) (simp add: n)
qed

lemma output_of_quiet: "\<not> list_ex is_SetOutput es \<Longrightarrow> output_of es name = None"
  by (simp add: output_of_none list_ex_iff)

lemma quiet_prepare:
  "\<not> list_ex is_SetOutput (events (prepare w inputs))"
  "\<not> list_ex is_artifact_upload (events (prepare w inputs))"
  "\<not> list_ex is_hub_publish (events (prepare w inputs))"
  "\<not> list_ex is_Warning (events (prepare w inputs))"
  "\<not> list_ex is_packaging (events (prepare w inputs))"
  by (rule never_list_ex, rule never_prepare, simp_all add: log_free_def is_hub_publish_def is_packaging_def)+

lemma quiet_build:
  "\<not> list_ex is_SetOutput (events (build w inputs))"
  "\<not> list_ex is_artifact_upload (events (build w inputs))"
  "\<not> list_ex is_hub_publish (events (build w inputs))"
  "\<not> list_ex is_Warning (events (build w inputs))"
  "\<not> list_ex is_packaging (events (build w inputs))"
  by (rule never_list_ex, rule never_build, simp_all add: log_free_def build_call_def is_hub_publish_def is_packaging_def)+

lemma quiet_upload:
  "\<not> list_ex is_SetOutput (events (uploadWithKernelsCli w kp repo))"
  "\<not> list_ex is_artifact_upload (events (uploadWithKernelsCli w kp repo))"
  "\<not> list_ex is_hub_publish (events (uploadWithKernelsCli w kp repo))"
  "\<not> list_ex is_Warning (events (uploadWithKernelsCli w kp repo))"
  "\<not> list_ex is_packaging (events (uploadWithKernelsCli w kp repo))"
  by (rule never_list_ex, rule never_uploadWithKernelsCli, simp_all add: log_free_def is_hub_publish_def is_packaging_def)+

lemma quiet_copyKernel:
  "\<not> list_ex is_SetOutput (events (copyKernel w p name))"
  "\<not> list_ex is_artifact_upload (events (copyKernel w p name))"
  "\<not> list_ex is_hub_publish (events (copyKernel w p name))"
  "\<not> list_ex is_Warning (events (copyKernel w p name))"
  by (rule never_list_ex, rule never_copyKernel, simp_all add: log_free_def is_hub_publish_def)+

lemma quiet_upload_step:
  "\<not> list_ex is_SetOutput (events (upload_step w inputs out))"
  "\<not> list_ex is_hub_publish (events (upload_step w inputs out))"
  "\<not> list_ex is_Warning (events (upload_step w inputs out))"
  "\<not> list_ex is_packaging (events (upload_step w inputs out))"
  by (rule never_list_ex, rule never_upload_step, simp_all add: log_free_def is_hub_publish_def is_packaging_def)+

lemma quiet_publish_step:
  "\<not> list_ex is_SetOutput (events (publish_step w inputs out))"
  "\<not> list_ex is_artifact_upload (events (publish_step w inputs out))"
  "\<not> list_ex is_packaging (events (publish_step w inputs out))"
  by (rule never_list_ex, rule never_publish_step, simp_all add: log_free_def is_packaging_def)+

lemmas quiet = quiet_prepare quiet_build quiet_upload quiet_copyKernel quiet_upload_step quiet_publish_step

lemma is_hub_publish_simps [simp]:
  "is_hub_publish (Exec c a d e) \<longleftrightarrow> c = ''pip'' \<or> c = ''python''"
  "\<not> is_hub_publish (Info s)" "\<not> is_hub_publish (Warning s)" "\<not> is_hub_publish (StartGroup s)"
  "\<not> is_hub_publish EndGroup" "\<not> is_hub_publish (AddPath s)" "\<not> is_hub_publish (Glob s)"
  "\<not> is_hub_publish (UploadArtifactCall n fs r)" "\<not> is_hub_publish (SetOutput k v)"
  "\<not> is_hub_publish (SetFailed s)"
  by (simp_all add: is_hub_publish_def)

lemma is_packaging_simps [simp]:
  "is_packaging (Exec c a d e) \<longleftrightarrow> c = ''cp''"
  "\<not> is_packaging (Info s)" "\<not> is_packaging (Warning s)" "\<not> is_packaging (StartGroup s)"
  "\<not> is_packaging EndGroup" "\<not> is_packaging (AddPath s)" "\<not> is_packaging (Glob s)"
  "\<not> is_packaging (UploadArtifactCall n fs r)" "\<not> is_packaging (SetOutput k v)"
  "\<not> is_packaging (SetFailed s)"
  by (simp_all add: is_packaging_def)

lemma failed_trace_outputs:
  assumes f: "failed (trace w inputs)"
  shows "(\<not> list_ex is_artifact_upload (trace w inputs) \<and> \<not> list_ex is_hub_publish (trace w inputs)
          \<and> output_of (trace w inputs) ''kernel-path'' = None
          \<and> output_of (trace w inputs) ''artifact-name'' = None)
       \<or> ((list_ex is_artifact_upload (trace w inputs) \<or> list_ex is_hub_publish (trace w inputs))
          \<and> output_of (trace w inputs) ''kernel-path'' = Some (artifactName inputs @ ''-output'')
          \<and> output_of (trace w inputs) ''artifact-name'' = Some (artifactName inputs))"
proof -
  from f have nok: "outcome (run_inputs w inputs) \<noteq> Inr ()"
    by (simp add: failed_trace)
  have tr: "list_ex is_artifact_upload (trace w inputs) = list_ex is_artifact_upload (events (run_inputs w inputs))"
    "list_ex is_hub_publish (trace w inputs) = list_ex is_hub_publish (events (run_inputs w inputs))"
    by (simp_all add: list_ex_trace is_hub_publish_def)
  show ?thesis
  proof (cases rule: trace_cases [of w inputs])
    case (prepare_failed e)
    then show ?thesis
      by (simp add: tr output_of_trace quiet output_of_quiet)
  next
    case (build_failed e)
    then show ?thesis
      by (simp add: tr output_of_trace quiet output_of_quiet)
  next
    case manual
    with nok obtain e where "outcome (manual_upload w inputs) = Inl e"
      by (cases "outcome (manual_upload w inputs)") simp_all
    from events_manual_upload_failed [OF this] manual show ?thesis
      by (simp add: tr output_of_trace quiet output_of_quiet)
  next
    case no_result
    with nok show ?thesis by simp
  next
    case (copy_failed p e)
    then show ?thesis
      by (simp add: tr output_of_trace quiet output_of_quiet)
  next
    case (copied p)
    let ?out = "artifactName inputs @ ''-output''"
    let ?B = "events (upload_step w inputs ?out)
         @ (case outcome (upload_step w inputs ?out) of Inl _ \<Rightarrow> []
            | Inr _ \<Rightarrow> events (publish_step w inputs ?out)
                @ (case outcome (publish_step w inputs ?out) of Inl _ \<Rightarrow> []
                   | Inr _ \<Rightarrow> [Info ''Action completed successfully!'']))"
    have B: "\<not> list_ex is_SetOutput ?B"
      by (simp add: quiet split: sum.splits)
    have started: "list_ex is_artifact_upload ?B \<or> list_ex is_hub_publish ?B"
    proof (cases "outcome (upload_step w inputs ?out)")
      case (Inl e)
      from upload_step_failed [OF this] Inl show ?thesis by simp
    next
      case u: (Inr x)
      with nok copied(3) obtain e where "outcome (publish_step w inputs ?out) = Inl e"
        by (cases "outcome (publish_step w inputs ?out)") simp_all
      from publish_step_failed [OF this] this u show ?thesis by simp
    qed
    from started have "list_ex is_artifact_upload (events (run_inputs w inputs))
        \<or> list_ex is_hub_publish (events (run_inputs w inputs))"
      unfolding copied(2) by auto
    moreover have "output_of (events (run_inputs w inputs)) ''kernel-path'' = Some ?out"
      unfolding copied(2) by (rule output_of_set [OF B])
    moreover have "output_of (events (run_inputs w inputs)) ''artifact-name'' = Some (artifactName inputs)"
      unfolding copied(2) by (rule output_of_set [OF B])
    ultimately show ?thesis by (simp add: tr output_of_trace)
  qed
qed

lemma publish_step_warning:
  assumes "publish inputs" and "hfToken inputs = [] \<or> hfRepo inputs = []"
  shows "publish_step w inputs out
     = emit (Warning ''Publish requested but hf-token or hf-repo not provided. Skipping publish.'')"
  using assms by (auto simp: publish_step_def)

lemma never_publish_manual:
  assumes "publish inputs" and "hfToken inputs = [] \<or> hfRepo inputs = []"
  shows "\<not> list_ex is_hub_publish (trace w inputs)"
proof -
  have "never is_hub_publish (finish w inputs r)" for r
    using assms
    by (auto simp: finish_def never_manual_upload never_no_result never_distribute split: option.splits)
  then have "never is_hub_publish (run_inputs w inputs)"
    by (intro never_run_inputs) (simp_all add: never_prepare never_build build_call_def)
  then show ?thesis
    by (simp add: list_ex_trace never_list_ex)
qed

lemma warning_iff:
  assumes p: "publish inputs" and c: "hfToken inputs = [] \<or> hfRepo inputs = []"
  shows "list_ex is_Warning (trace w inputs)
     \<longleftrightarrow> \<not> failed (trace w inputs) \<and> list_ex is_packaging (trace w inputs)"
proof -
  have tr: "list_ex is_Warning (trace w inputs) = list_ex is_Warning (events (run_inputs w inputs))"
    "list_ex is_packaging (trace w inputs) = list_ex is_packaging (events (run_inputs w inputs))"
    by (simp_all add: list_ex_trace)
  note ps = publish_step_warning [OF p c]
  show ?thesis
  proof (cases rule: trace_cases [of w inputs])
    case (prepare_failed e)
    then show ?thesis
      by (simp add: tr failed_trace quiet)
  next
    case (build_failed e)
    then show ?thesis
      by (simp add: tr failed_trace quiet)
  next
    case manual
    then show ?thesis
      by (simp add: tr failed_trace quiet events_manual_upload split: sum.splits)
  next
    case no_result
    then show ?thesis
      by (simp add: tr failed_trace quiet events_no_result)
  next
    case (copy_failed p e)
    then show ?thesis
      by (simp add: tr failed_trace quiet)
  next
    case (copied path)
    have "list_ex is_packaging (events (copyKernel w path (artifactName inputs)))"
      using copy_call_in_events [of path "artifactName inputs" w]
      unfolding list_ex_iff by (rule bexI [rotated]) simp
    with copied show ?thesis
      by (simp add: tr failed_trace quiet ps split: sum.splits)
  qed
qed

lemma getInputs_publish_manual_world: "getInputs publish_manual_world = Inr publish_manual_inputs"
  by (simp add: getInputs_def publish_manual_world_def quiet_world_def inputs_of_def or_default_def
      publish_manual_inputs_def)

lemma getInputs_publish_world: "getInputs publish_world = Inr publish_inputs"
  by (simp add: getInputs_def publish_world_def quiet_world_def inputs_of_def or_default_def
      publish_inputs_def)

subsection \<open>The action of src/index.ts\<close>

lemma widen_simps:
  "artifactName (widen i) = ix_artifactName i" "uploadArtifact (widen i) = ix_uploadArtifact i"
  "publish (widen i) = ix_publish i" "hfToken (widen i) = ix_hfToken i" "hfRepo (widen i) = ix_hfRepo i"
  by (simp_all add: widen_def)

lemma index_run_split: "index_run w = catch (index_body w (index_getInputs w))"
  unfolding index_run_def index_body_def index_prepare_def index_build_def distribute_def Let_def
    widen_simps
  by (rule refl)

lemma never_index_prepare:
  "log_free P \<Longrightarrow> \<forall>a. \<not> P (Exec ''curl'' a None None) \<Longrightarrow> \<forall>a. \<not> P (Exec ''sh'' a None None)
   \<Longrightarrow> \<forall>a. \<not> P (Exec ''nix-env'' a None None) \<Longrightarrow> \<forall>a. \<not> P (Exec ''cachix'' a None None)
   \<Longrightarrow> never P (index_prepare w inputs)"
  by (simp add: index_prepare_def index_installNix_def index_setupCachix_def log_free_def)

lemma never_index_build:
  "log_free P \<Longrightarrow> \<forall>a d. \<not> P (Exec ''nix'' a d None) \<Longrightarrow> never P (index_build w inputs)"
  by (simp add: index_build_def index_buildKernel_def Let_def log_free_def)

lemma outcome_index_buildKernel:
  "outcome (index_buildKernel w kp tgt) =
     (case exec_outcome w ''nix'' [''build'', ''.#'' @ tgt] (Some (path_resolve w kp)) None of
        Some e \<Rightarrow> Inl e
      | None \<Rightarrow> if existsSync w (resultPath_of w kp) then Inr (resultPath_of w kp)
                else Inl (Error (''Build result not found at '' @ resultPath_of w kp)))"
  by (simp add: index_buildKernel_def resultPath_of_def Let_def io_simps split: option.splits)

lemma index_cases [case_names prepare_failed build_failed copy_failed copied]:
  obtains
    e where "events (index_body w i) = events (index_prepare w i)"
      "outcome (index_body w i) = Inl e"
  | e where "events (index_body w i) = events (index_prepare w i) @ events (index_build w i)"
      "outcome (index_body w i) = Inl e"
  | p e where
      "events (index_body w i) =
         events (index_prepare w i) @ events (index_build w i) @ EndGroup # StartGroup ''Copy Kernel''
           # events (copyKernel w p (ix_artifactName i))"
      "outcome (index_body w i) = Inl e"
  | p where
      "events (index_body w i) =
         (events (index_prepare w i) @ events (index_build w i) @ EndGroup # StartGroup ''Copy Kernel''
           # events (copyKernel w p (ix_artifactName i)))
         @ [SetOutput ''kernel-path'' (ix_artifactName i @ ''-output''),
            SetOutput ''artifact-name'' (ix_artifactName i), EndGroup]
         @ events (upload_step w (widen i) (ix_artifactName i @ ''-output''))
         @ (case outcome (upload_step w (widen i) (ix_artifactName i @ ''-output'')) of Inl _ \<Rightarrow> []
            | Inr _ \<Rightarrow> events (publish_step w (widen i) (ix_artifactName i @ ''-output''))
                @ (case outcome (publish_step w (widen i) (ix_artifactName i @ ''-output'')) of Inl _ \<Rightarrow> []
                   | Inr _ \<Rightarrow> [Info ''Action completed successfully!'']))"
      "outcome (index_body w i) =
         (case outcome (upload_step w (widen i) (ix_artifactName i @ ''-output'')) of Inl e \<Rightarrow> Inl e
          | Inr _ \<Rightarrow> outcome (publish_step w (widen i) (ix_artifactName i @ ''-output'')))"
proof (cases "outcome (index_prepare w i)")
  case (Inl e)
  then show ?thesis
    by (intro that(1) [of e]) (simp_all add: index_body_def io_simps)
next
  case p: (Inr u)
  show ?thesis
  proof (cases "outcome (index_build w i)")
    case (Inl e)
    with p show ?thesis
      by (intro that(2) [of e]) (simp_all add: index_body_def io_simps)
  next
    case b: (Inr path)
    show ?thesis
    proof (cases "outcome (copyKernel w path (ix_artifactName i))")
      case (Inl e)
      with p b show ?thesis
        by (intro that(3) [of path e])
           (simp_all add: index_body_def io_simps events_distribute outcome_distribute widen_simps)
    next
      case (Inr out)
      with copyKernel_Inr [OF Inr] p b show ?thesis
        by (intro that(4) [of path])
           (simp_all add: index_body_def io_simps events_distribute outcome_distribute widen_simps)
    qed
  qed
qed

lemma failed_catch: "never is_SetFailed m \<Longrightarrow> failed (catch m) \<longleftrightarrow> outcome m \<noteq> Inr ()"
  by (cases "outcome m") (simp_all add: catch_eq failed_def never_list_ex)

lemma output_of_catch: "output_of (catch m) name = output_of (events m) name"
  by (simp add: catch_eq output_of_append split: sum.splits)

lemma list_ex_catch: "\<forall>s. \<not> P (SetFailed s) \<Longrightarrow> list_ex P (catch m) = list_ex P (events m)"
  by (simp add: catch_eq split: sum.splits)

lemma never_SetFailed_index: "never is_SetFailed (index_body w i)"
  by (simp add: index_body_def never_index_prepare never_index_build never_distribute_SetFailed)

lemma quiet_index_prepare:
  "\<not> list_ex is_SetOutput (events (index_prepare w i))"
  "\<not> list_ex is_artifact_upload (events (index_prepare w i))"
  "\<not> list_ex is_hub_publish (events (index_prepare w i))"
  "\<not> list_ex is_Warning (events (index_prepare w i))"
  "\<not> list_ex is_packaging (events (index_prepare w i))"
  by (rule never_list_ex, rule never_index_prepare, simp_all add: log_free_def)+

lemma quiet_index_build:
  "\<not> list_ex is_SetOutput (events (index_build w i))"
  "\<not> list_ex is_artifact_upload (events (index_build w i))"
  "\<not> list_ex is_hub_publish (events (index_build w i))"
  "\<not> list_ex is_Warning (events (index_build w i))"
  "\<not> list_ex is_packaging (events (index_build w i))"
  by (rule never_list_ex, rule never_index_build, simp_all add: log_free_def)+

lemmas index_quiet = quiet_index_prepare quiet_index_build quiet_copyKernel quiet_upload_step
  quiet_publish_step

lemma index_failed_outputs:
  assumes f: "failed (index_run w)"
  shows "(\<not> list_ex is_artifact_upload (index_run w) \<and> \<not> list_ex is_hub_publish (index_run w)
          \<and> output_of (index_run w) ''kernel-path'' = None
          \<and> output_of (index_run w) ''artifact-name'' = None)
       \<or> ((list_ex is_artifact_upload (index_run w) \<or> list_ex is_hub_publish (index_run w))
          \<and> output_of (index_run w) ''kernel-path'' = Some (ix_artifactName (index_getInputs w) @ ''-output'')
          \<and> output_of (index_run w) ''artifact-name'' = Some (ix_artifactName (index_getInputs w)))"
proof -
  let ?i = "index_getInputs w"
  from f have nok: "outcome (index_body w ?i) \<noteq> Inr ()"
    by (simp add: index_run_split failed_catch never_SetFailed_index)
  have tr: "list_ex is_artifact_upload (index_run w) = list_ex is_artifact_upload (events (index_body w ?i))"
    "list_ex is_hub_publish (index_run w) = list_ex is_hub_publish (events (index_body w ?i))"
    "output_of (index_run w) name = output_of (events (index_body w ?i)) name" for name
    by (simp_all add: index_run_split list_ex_catch output_of_catch)
  show ?thesis
  proof (cases rule: index_cases [of w ?i])
    case (prepare_failed e)
    then show ?thesis
      by (simp add: tr index_quiet output_of_quiet)
  next
    case (build_failed e)
    then show ?thesis
      by (simp add: tr index_quiet output_of_quiet)
  next
    case (copy_failed p e)
    then show ?thesis
      by (simp add: tr index_quiet output_of_quiet)
  next
    case (copied p)
    let ?out = "ix_artifactName ?i @ ''-output''"
    let ?B = "events (upload_step w (widen ?i) ?out)
         @ (case outcome (upload_step w (widen ?i) ?out) of Inl _ \<Rightarrow> []
            | Inr _ \<Rightarrow> events (publish_step w (widen ?i) ?out)
                @ (case outcome (publish_step w (widen ?i) ?out) of Inl _ \<Rightarrow> []
                   | Inr _ \<Rightarrow> [Info ''Action completed successfully!'']))"
    have B: "\<not> list_ex is_SetOutput ?B"
      by (simp add: index_quiet split: sum.splits)
    have started: "list_ex is_artifact_upload ?B \<or> list_ex is_hub_publish ?B"
    proof (cases "outcome (upload_step w (widen ?i) ?out)")
      case (Inl e)
      from upload_step_failed [OF this] Inl show ?thesis by simp
    next
      case u: (Inr x)
      with nok copied(2) obtain e where "outcome (publish_step w (widen ?i) ?out) = Inl e"
        by (cases "outcome (publish_step w (widen ?i) ?out)") simp_all
      from publish_step_failed [OF this] this u show ?thesis by simp
    qed
    from started have "list_ex is_artifact_upload (events (index_body w ?i))
        \<or> list_ex is_hub_publish (events (index_body w ?i))"
      unfolding copied(1) by auto
    moreover have "output_of (events (index_body w ?i)) ''kernel-path'' = Some ?out"
      unfolding copied(1) by (rule output_of_set [OF B])
    moreover have "output_of (events (index_body w ?i)) ''artifact-name'' = Some (ix_artifactName ?i)"
      unfolding copied(1) by (rule output_of_set [OF B])
    ultimately show ?thesis by (simp add: tr)
  qed
qed

lemma index_warning_iff:
  assumes p: "ix_publish (index_getInputs w)"
    and c: "ix_hfToken (index_getInputs w) = [] \<or> ix_hfRepo (index_getInputs w) = []"
  shows "\<not> list_ex is_hub_publish (index_run w)
       \<and> (list_ex is_Warning (index_run w) \<longleftrightarrow> \<not> failed (index_run w))"
proof -
  let ?i = "index_getInputs w"
  have tr: "list_ex is_Warning (index_run w) = list_ex is_Warning (events (index_body w ?i))"
    "list_ex is_hub_publish (index_run w) = list_ex is_hub_publish (events (index_body w ?i))"
    "failed (index_run w) \<longleftrightarrow> outcome (index_body w ?i) \<noteq> Inr ()"
    by (simp_all add: index_run_split list_ex_catch failed_catch never_SetFailed_index)
  have ps: "publish_step w (widen ?i) out
     = emit (Warning ''Publish requested but hf-token or hf-repo not provided. Skipping publish.'')" for out
    using p c by (intro publish_step_warning) (simp_all add: widen_simps)
  show ?thesis
  proof (cases rule: index_cases [of w ?i])
    case (prepare_failed e)
    then show ?thesis
      by (simp add: tr index_quiet)
  next
    case (build_failed e)
    then show ?thesis
      by (simp add: tr index_quiet)
  next
    case (copy_failed p e)
    then show ?thesis
      by (simp add: tr index_quiet)
  next
    case (copied path)
    then show ?thesis
      by (simp add: tr index_quiet ps split: sum.splits)
  qed
qed

lemma index_no_result:
  assumes ne: "\<not> existsSync w (resultPath_of w (ix_kernelPath (index_getInputs w)))"
  shows "failed (index_run w) \<and> \<not> list_ex is_packaging (index_run w)
       \<and> \<not> list_ex is_artifact_upload (index_run w) \<and> \<not> list_ex is_hub_publish (index_run w)
       \<and> \<not> list_ex is_SetOutput (index_run w)"
proof -
  let ?i = "index_getInputs w"
  have b: "outcome (index_build w ?i) \<noteq> Inr p" for p
    using ne by (simp add: index_build_def outcome_index_buildKernel split: option.splits)
  have tr: "list_ex is_packaging (index_run w) = list_ex is_packaging (events (index_body w ?i))"
    "list_ex is_artifact_upload (index_run w) = list_ex is_artifact_upload (events (index_body w ?i))"
    "list_ex is_hub_publish (index_run w) = list_ex is_hub_publish (events (index_body w ?i))"
    "list_ex is_SetOutput (index_run w) = list_ex is_SetOutput (events (index_body w ?i))"
    "failed (index_run w) \<longleftrightarrow> outcome (index_body w ?i) \<noteq> Inr ()"
    by (simp_all add: index_run_split list_ex_catch failed_catch never_SetFailed_index)
  show ?thesis
  proof (cases "outcome (index_prepare w ?i)")
    case (Inl e)
    then show ?thesis
      by (simp add: tr index_body_def io_simps index_quiet)
  next
    case (Inr u)
    from b obtain e where "outcome (index_build w ?i) = Inl e"
      by (cases "outcome (index_build w ?i)") blast+
    with Inr show ?thesis
      by (simp add: tr index_body_def io_simps index_quiet)
  qed
qed

lemma index_getInputs_defaults:
  "ix_kernelPath (index_getInputs w) = (if getInput w ''kernel-path'' = [] then ''.'' else getInput w ''kernel-path'')"
  "ix_buildTarget (index_getInputs w) = (if getInput w ''build-target'' = []
      then ''redistributable.torch29-cxx11-cu126-x86_64-linux'' else getInput w ''build-target'')"
  "ix_artifactName (index_getInputs w) = (if getInput w ''artifact-name'' = [] then ''kernel'' else getInput w ''artifact-name'')"
  "ix_cachixName (index_getInputs w) = (if getInput w ''cachix-name'' = [] then ''huggingface'' else getInput w ''cachix-name'')"
  "ix_cachixAuthToken (index_getInputs w) = getInput w ''cachix-auth-token''"
  "ix_nixMaxJobs (index_getInputs w) = (if getInput w ''nix-max-jobs'' = [] then ''4'' else getInput w ''nix-max-jobs'')"
  "ix_nixCores (index_getInputs w) = (if getInput w ''nix-cores'' = [] then ''12'' else getInput w ''nix-cores'')"
  "ix_hfToken (index_getInputs w) = getInput w ''hf-token''"
  "ix_hfRepo (index_getInputs w) = getInput w ''hf-repo''"
  "ix_uploadArtifact (index_getInputs w) \<longleftrightarrow> getInput w ''upload-artifact'' \<noteq> ''false''"
  "ix_publish (index_getInputs w) \<longleftrightarrow> getInput w ''publish'' = ''true''"
  by (simp_all add: index_getInputs_def or_default_if or_default_Nil)

lemma index_outputs_set_before_upload_fails:
  "failed (index_run upload_fails_world)
   \<and> output_of (index_run upload_fails_world) ''kernel-path'' = Some ''kernel-output''
   \<and> output_of (index_run upload_fails_world) ''artifact-name'' = Some ''kernel''"
  by code_simp

subsection \<open>What makes a run fail\<close>

text \<open>A run fails exactly when a call it made failed or, in build mode, the build left
  no result (\<open>failed_iff\<close>, and \<open>index_failed_iff\<close> for \<^verbatim>\<open>src/index.ts\<close>); the
  only warning of a run is the one for the missing credentials (\<open>warning_only\<close>).\<close>

lemma faithful_ret [simp]: "faithful w B (ret x)"
  by (simp add: faithful_def)

lemma faithful_throw [simp]: "faithful w B (throw e) \<longleftrightarrow> B"
  by (simp add: faithful_def)

lemma faithful_emit [simp]: "faithful w B (emit ev) \<longleftrightarrow> \<not> call_fails w ev"
  by (simp add: faithful_def)

lemma faithful_exec [simp]: "faithful w B (exec w c a d e)"
  by (simp add: faithful_def outcome_exec split: option.splits)

lemma faithful_glob [simp]: "faithful w B (glob w pat)"
  by (simp add: faithful_def split: sum.splits)

lemma faithful_uploadArtifactCall [simp]: "faithful w B (uploadArtifactCall w n fs r)"
  by (simp add: faithful_def outcome_uploadArtifactCall split: option.splits)

lemma faithful_bind:
  assumes "faithful w B m" and "\<And>x. faithful w B (f x)"
  shows "faithful w B (bind m f)"
proof (cases "outcome m")
  case (Inl e)
  with assms(1) show ?thesis
    by (simp add: faithful_def events_bind outcome_bind)
next
  case (Inr x)
  with assms(1) assms(2) [of x] show ?thesis
    by (auto simp: faithful_def events_bind outcome_bind split: sum.splits)
qed

lemma faithful_bind_all [simp]: "faithful w B m \<Longrightarrow> \<forall>x. faithful w B (f x) \<Longrightarrow> faithful w B (bind m f)"
  by (simp add: faithful_bind)

lemma faithful_if_then [simp]: "faithful w B (if_then c m) \<longleftrightarrow> (c \<longrightarrow> faithful w B m)"
  by (simp add: if_then_def)

lemma faithful_seq_all [simp]: "list_all (faithful w B) ms \<Longrightarrow> faithful w B (seq ms)"
  by (induction ms) (auto intro: faithful_bind simp: seq.simps)

lemma faithful_installNix: "faithful w B (installNix w mj c sm x)"
  by (simp add: installNix_def)

lemma faithful_setupCachix: "faithful w B (setupCachix w name tok)"
  by (simp add: setupCachix_def)

lemma faithful_prepare: "faithful w B (prepare w inputs)"
  by (simp add: prepare_def faithful_installNix faithful_setupCachix)

lemma faithful_buildKernel:
  "faithful w (nc = Build \<and> \<not> existsSync w (resultPath_of w kp)) (buildKernel w kp tgt nc v repo)"
  by (simp add: buildKernel_def Let_def)

lemma faithful_build:
  "faithful w (nixCommand inputs = Build \<and> \<not> existsSync w (resultPath_of w (kernelPath inputs))) (build w inputs)"
  by (simp add: build_def faithful_buildKernel)

lemma faithful_uploadWithKernelsCli: "faithful w B (uploadWithKernelsCli w kp repo)"
  by (simp add: uploadWithKernelsCli_def)

lemma faithful_copyKernel: "faithful w B (copyKernel w rp name)"
  by (simp add: copyKernel_def Let_def)

lemma faithful_uploadKernelArtifact: "faithful w B (uploadKernelArtifact w out name)"
  by (simp add: uploadKernelArtifact_def)

lemma faithful_publishToHuggingFace: "faithful w B (publishToHuggingFace w out repo tok)"
  by (simp add: publishToHuggingFace_def)

lemma faithful_distribute: "faithful w B (distribute w inputs p)"
  by (simp add: distribute_def faithful_copyKernel faithful_uploadKernelArtifact
      faithful_publishToHuggingFace)

lemma faithful_finish: "faithful w B (finish w inputs r)"
  by (simp add: finish_def manual_upload_def no_result_def faithful_uploadWithKernelsCli
      faithful_distribute split: option.splits)

lemma faithful_run_inputs:
  "faithful w (nixCommand inputs = Build \<and> \<not> existsSync w (resultPath_of w (kernelPath inputs)))
     (run_inputs w inputs)"
  by (simp add: run_inputs_split faithful_prepare faithful_build faithful_finish)

lemma call_fails_catch:
  "(\<exists>ev \<in> set (catch m). call_fails w ev) \<longleftrightarrow> (\<exists>ev \<in> set (events m). call_fails w ev)"
  by (auto simp: catch_eq split: sum.splits)

lemma call_fails_trace:
  "(\<exists>ev \<in> set (trace w inputs). call_fails w ev) \<longleftrightarrow> (\<exists>ev \<in> set (events (run_inputs w inputs)). call_fails w ev)"
  by (auto simp: trace_eq split: sum.splits)

lemma failed_iff:
  "failed (trace w inputs) \<longleftrightarrow>
     (\<exists>ev \<in> set (trace w inputs). call_fails w ev)
     \<or> (nixCommand inputs = Build \<and> \<not> existsSync w (resultPath_of w (kernelPath inputs)))"
proof (cases "nixCommand inputs = Build \<and> \<not> existsSync w (resultPath_of w (kernelPath inputs))")
  case True
  then show ?thesis
    by (simp add: build_no_result_failed)
next
  case False
  with faithful_run_inputs [of w inputs] show ?thesis
    unfolding call_fails_trace failed_trace faithful_def
    by (cases "outcome (run_inputs w inputs)") auto
qed

lemma faithful_index_body:
  "faithful w (\<not> existsSync w (resultPath_of w (ix_kernelPath i))) (index_body w i)"
  by (simp add: index_body_def index_prepare_def index_installNix_def index_setupCachix_def
      index_build_def index_buildKernel_def resultPath_of_def Let_def faithful_distribute)

lemma index_failed_iff:
  "failed (index_run w) \<longleftrightarrow>
     (\<exists>ev \<in> set (index_run w). call_fails w ev)
     \<or> \<not> existsSync w (resultPath_of w (ix_kernelPath (index_getInputs w)))"
proof (cases "existsSync w (resultPath_of w (ix_kernelPath (index_getInputs w)))")
  case False
  then show ?thesis
    by (simp add: index_no_result)
next
  case True
  from True faithful_index_body [of w "index_getInputs w"] show ?thesis
    unfolding index_run_split call_fails_catch failed_catch [OF never_SetFailed_index] faithful_def
    by (cases "outcome (index_body w (index_getInputs w))") auto
qed

lemma call_fails_quiet_world: "\<not> call_fails (quiet_world kvs b) ev"
  by (cases ev) (simp_all add: quiet_world_def)

lemma warning_only:
  "\<forall>ev \<in> set (trace w inputs). is_Warning ev \<longrightarrow>
      ev = Warning ''Publish requested but hf-token or hf-repo not provided. Skipping publish.''
    \<and> publish inputs \<and> (hfToken inputs = [] \<or> hfRepo inputs = [])"
proof -
  define P where "P = (\<lambda>ev. is_Warning ev \<and>
     \<not> (ev = Warning ''Publish requested but hf-token or hf-repo not provided. Skipping publish.''
        \<and> publish inputs \<and> (hfToken inputs = [] \<or> hfRepo inputs = [])))"
  have lf: "log_free P"
    by (simp add: P_def log_free_def)
  have ex: "\<not> P (Exec c a d e)" "\<not> P (Glob p)" "\<not> P (UploadArtifactCall n fs r)" "\<not> P (SetOutput k v)"
    "\<not> P (SetFailed s)" "\<not> P EndGroup" "\<not> P (StartGroup s)" "\<not> P (Info s)"
    for c a d e p n fs r k v s
    by (simp_all add: P_def)
  have wa: "\<not> P (Warning ''Publish requested but hf-token or hf-repo not provided. Skipping publish.'')"
    if "publish inputs" "\<not> (hfToken inputs \<noteq> [] \<and> hfRepo inputs \<noteq> [])"
    using that by (auto simp: P_def)
  have ps: "never P (publish_step w inputs out)" for out
    by (simp add: publish_step_def never_stage lf ex wa)
  have us: "never P (upload_step w inputs out)" for out
    by (simp add: never_upload_step lf ex)
  have "never P (distribute w inputs p)" for p
    by (simp add: distribute_split never_stage lf ex ps us)
  then have "never P (finish w inputs r)" for r
    by (simp add: finish_def manual_upload_def no_result_def never_stage lf ex split: option.splits)
  then have "never P (run_inputs w inputs)"
    by (intro never_run_inputs) (simp_all add: never_prepare never_build build_call_def lf ex)
  then have "\<forall>ev \<in> set (trace w inputs). \<not> P ev"
    by (rule never_trace) (simp add: ex)
  then show ?thesis
    unfolding P_def by blast
qed

lemma result_copied:
  assumes m: "\<not> needsManualUpload inputs" and x: "existsSync w (resultPath_of w (kernelPath inputs))"
    and ok: "\<not> failed (trace w inputs)"
  shows "Exec ''cp'' [''-rL'', resultPath_of w (kernelPath inputs), artifactName inputs @ ''-output''] None None
           \<in> set (trace w inputs)"
proof -
  from ok have ok': "outcome (run_inputs w inputs) = Inr ()"
    by (simp add: failed_trace)
  then obtain r where p: "outcome (prepare w inputs) = Inr ()" and b: "outcome (build w inputs) = Inr r"
    by (auto simp: outcome_run_inputs split: sum.splits)
  from b x have r: "r = Some (resultPath_of w (kernelPath inputs))"
    by (simp add: build_def outcome_buildKernel split: option.splits)
  have "Exec ''cp'' [''-rL'', resultPath_of w (kernelPath inputs), artifactName inputs @ ''-output''] None None
      \<in> set (events (distribute w inputs (resultPath_of w (kernelPath inputs))))"
    using copy_call_in_events [of "resultPath_of w (kernelPath inputs)" "artifactName inputs" w]
    by (simp add: events_distribute)
  then show ?thesis
    using m by (simp add: trace_eq events_run_inputs p b r finish_def)
qed

lemma warning_reached:
  assumes p: "publish inputs" and c: "hfToken inputs = [] \<or> hfRepo inputs = []"
    and m: "\<not> needsManualUpload inputs" and x: "existsSync w (resultPath_of w (kernelPath inputs))"
    and ok: "\<forall>ev \<in> set (trace w inputs). \<not> call_fails w ev"
  shows "\<not> failed (trace w inputs)"
    and "Warning ''Publish requested but hf-token or hf-repo not provided. Skipping publish.'' \<in> set (trace w inputs)"
proof -
  from ok x show nf: "\<not> failed (trace w inputs)"
    by (simp add: failed_iff)
  from result_copied [OF m x nf] have "list_ex is_packaging (trace w inputs)"
    unfolding list_ex_iff by (rule bexI [rotated]) simp
  with nf have "list_ex is_Warning (trace w inputs)"
    by (simp add: warning_iff [OF p c])
  then obtain ev where ev: "ev \<in> set (trace w inputs)" "is_Warning ev"
    by (auto simp: list_ex_iff)
  with warning_only [of w inputs] have "ev = Warning ''Publish requested but hf-token or hf-repo not provided. Skipping publish.''"
    by blast
  with ev show "Warning ''Publish requested but hf-token or hf-repo not provided. Skipping publish.'' \<in> set (trace w inputs)"
    by simp
qed

subsection \<open>The calls of the build tool\<close>

lemma nix_command_str_if: "nix_command_str c = (if c = Build then ''build'' else ''run'')"
  by (cases c) simp_all

lemma build_call_manual:
  "needsManualUpload inputs \<Longrightarrow>
   build_call w inputs =
     Exec ''nix'' ((if nixCommand inputs = Build then ''build'' else ''run'')
                    # (if verbose inputs then [''-L''] else []) @ [''.#build-and-copy''])
       (Some (path_resolve w (kernelPath inputs)))
       (Some (AList.update ''HF_REPO'' (hfRepo inputs) (process_env w)))"
  by (simp add: build_call_def effectiveBuildTarget_def nix_args_def nix_env_def needsManualUpload_def
      nix_command_str_if)

lemma build_call_plain:
  "\<not> needsManualUpload inputs \<Longrightarrow>
   build_call w inputs =
     Exec ''nix'' ((if nixCommand inputs = Build then ''build'' else ''run'')
                    # (if verbose inputs then [''-L''] else []) @ [''.#'' @ buildTarget inputs])
       (Some (path_resolve w (kernelPath inputs)))
       (Some (if hfRepo inputs \<noteq> [] then AList.update ''HF_REPO'' (hfRepo inputs) (process_env w)
              else process_env w))"
  by (simp add: build_call_def effectiveBuildTarget_def nix_args_def nix_env_def nix_command_str_if)

lemma build_call_in_trace:
  "environment_ok w inputs \<Longrightarrow> build_call w inputs \<in> set (trace w inputs)"
  using build_call_in_build [of w inputs]
  by (simp add: trace_eq events_run_inputs outcome_prepare_iff [symmetric])

lemma build_call_ok_iff:
  "build_call_ok w inputs \<longleftrightarrow> \<not> call_fails w (build_call w inputs)"
  by (simp add: build_call_ok_def build_call_def)

lemma nix_calls_manual:
  assumes "needsManualUpload inputs"
  shows "\<forall>ev \<in> set (trace w inputs). exec_of ''nix'' ev \<longrightarrow>
           ev = build_call w inputs
         \<or> ev = Exec ''nix'' [''run'', ''.#kernels'', ''--'', ''upload'', ''--repo_id'', hfRepo inputs, ''.'']
                  (Some (path_resolve w (kernelPath inputs))) None"
proof -
  let ?P = "\<lambda>ev. exec_of ''nix'' ev \<and> ev \<noteq> build_call w inputs
     \<and> ev \<noteq> Exec ''nix'' [''run'', ''.#kernels'', ''--'', ''upload'', ''--repo_id'', hfRepo inputs, ''.'']
                  (Some (path_resolve w (kernelPath inputs))) None"
  have lf: "log_free ?P" by (simp add: log_free_def)
  have "never ?P (run_inputs w inputs)"
    by (rule never_run_inputs) (simp_all add: never_prepare never_build never_finish_manual lf assms)
  then have "\<forall>ev \<in> set (trace w inputs). \<not> ?P ev"
    by (rule never_trace) simp
  then show ?thesis by blast
qed

lemma nix_calls_plain:
  assumes "\<not> needsManualUpload inputs"
  shows "\<forall>ev \<in> set (trace w inputs). exec_of ''nix'' ev \<longrightarrow> ev = build_call w inputs"
proof -
  let ?P = "\<lambda>ev. exec_of ''nix'' ev \<and> ev \<noteq> build_call w inputs"
  have lf: "log_free ?P" by (simp add: log_free_def)
  have "never ?P (run_inputs w inputs)"
    by (rule never_run_inputs)
       (simp_all add: never_prepare never_build finish_def never_distribute never_no_result lf assms
          split: option.splits)
  then have "\<forall>ev \<in> set (trace w inputs). \<not> ?P ev"
    by (rule never_trace) simp
  then show ?thesis by blast
qed

lemma manual_upload_in_trace:
  assumes m: "needsManualUpload inputs" and ok: "\<not> failed (trace w inputs)"
  shows "Exec ''nix'' [''run'', ''.#kernels'', ''--'', ''upload'', ''--repo_id'', hfRepo inputs, ''.'']
              (Some (path_resolve w (kernelPath inputs))) None \<in> set (trace w inputs)"
  by (subst manual_trace [OF m ok]) simp

section \<open>The claims\<close>

text \<open>
  C1. The manual upload flag is true exactly when \<^verbatim>\<open>hf-repo\<close> is not empty and the
  requested target is \<^verbatim>\<open>build-and-upload\<close>; the target handed to the build tool is
  \<^verbatim>\<open>build-and-copy\<close> in that case and the requested one otherwise. With the flag
  set, the build tool is called as \<^verbatim>\<open>nix build\<close> or \<^verbatim>\<open>nix run\<close>, with \<^verbatim>\<open>-L\<close> when
  verbose, on \<^verbatim>\<open>.#build-and-copy\<close>, in the resolved kernel path and with \<^verbatim>\<open>HF_REPO\<close>
  set to the repository; the direct upload is \<^verbatim>\<open>nix run .#kernels -- upload --repo_id\<close>
  with the repository of the inputs, in the same directory. These are the only calls
  of \<^verbatim>\<open>nix\<close> in the trace; the build tool is called as soon as the installer and the
  cache setup returned; a run that does not fail has made both calls and has set the
  output \<^verbatim>\<open>kernel-path\<close> to the empty string and \<^verbatim>\<open>artifact-name\<close> to the artifact
  name; and the run does not fail exactly when no stage on the way throws: the
  installer and the cache setup return, the build tool exits with status 0, the build
  stage finds its result or is in run mode, and the direct upload exits with status 0.
  Without the flag the only call of \<^verbatim>\<open>nix\<close> is the build tool on the requested
  target, made as soon as the installer and the cache setup returned, and no direct
  upload is made, against any repository.
\<close>

theorem manual_upload_path:
  "(needsManualUpload inputs \<longleftrightarrow> hfRepo inputs \<noteq> [] \<and> buildTarget inputs = ''build-and-upload'')
   \<and> effectiveBuildTarget inputs
       = (if needsManualUpload inputs then ''build-and-copy'' else buildTarget inputs)
   \<and> (needsManualUpload inputs \<longrightarrow>
        (let args = (if nixCommand inputs = Build then ''build'' else ''run'')
                      # (if verbose inputs then [''-L''] else []) @ [''.#build-and-copy''];
             cwd = Some (path_resolve w (kernelPath inputs));
             env = Some (AList.update ''HF_REPO'' (hfRepo inputs) (process_env w));
             upload = [''run'', ''.#kernels'', ''--'', ''upload'', ''--repo_id'', hfRepo inputs, ''.'']
         in (\<forall>ev \<in> set (trace w inputs). exec_of ''nix'' ev \<longrightarrow>
               ev = Exec ''nix'' args cwd env \<or> ev = Exec ''nix'' upload cwd None)
          \<and> (environment_ok w inputs \<longrightarrow> Exec ''nix'' args cwd env \<in> set (trace w inputs))
          \<and> (\<not> failed (trace w inputs) \<longrightarrow>
                 Exec ''nix'' args cwd env \<in> set (trace w inputs)
               \<and> Exec ''nix'' upload cwd None \<in> set (trace w inputs)
               \<and> output_of (trace w inputs) ''kernel-path'' = Some []
               \<and> output_of (trace w inputs) ''artifact-name'' = Some (artifactName inputs))
          \<and> (\<not> failed (trace w inputs) \<longleftrightarrow>
                 environment_ok w inputs
               \<and> exec_outcome w ''nix'' args cwd env = None
               \<and> (nixCommand inputs = Run \<or> existsSync w (resultPath_of w (kernelPath inputs)))
               \<and> exec_outcome w ''nix'' upload cwd None = None)))
   \<and> (\<not> needsManualUpload inputs \<longrightarrow>
        (let args = (if nixCommand inputs = Build then ''build'' else ''run'')
                      # (if verbose inputs then [''-L''] else []) @ [''.#'' @ buildTarget inputs];
             cwd = Some (path_resolve w (kernelPath inputs));
             env = Some (if hfRepo inputs \<noteq> [] then AList.update ''HF_REPO'' (hfRepo inputs) (process_env w)
                         else process_env w)
         in (\<forall>repo. \<not> list_ex (is_direct_upload repo) (trace w inputs))
          \<and> (\<forall>ev \<in> set (trace w inputs). exec_of ''nix'' ev \<longrightarrow> ev = Exec ''nix'' args cwd env)
          \<and> (environment_ok w inputs \<longrightarrow> Exec ''nix'' args cwd env \<in> set (trace w inputs))))"
proof (intro conjI impI)
  show "needsManualUpload inputs \<longleftrightarrow> hfRepo inputs \<noteq> [] \<and> buildTarget inputs = ''build-and-upload''"
    by (simp add: needsManualUpload_def)
  show "effectiveBuildTarget inputs
       = (if needsManualUpload inputs then ''build-and-copy'' else buildTarget inputs)"
    by (simp add: effectiveBuildTarget_def)
next
  assume m: "needsManualUpload inputs"
  note b = build_call_manual [OF m, of w]
  have calls: "\<forall>ev \<in> set (trace w inputs). exec_of ''nix'' ev \<longrightarrow>
           ev = build_call w inputs
         \<or> ev = Exec ''nix'' [''run'', ''.#kernels'', ''--'', ''upload'', ''--repo_id'', hfRepo inputs, ''.'']
                  (Some (path_resolve w (kernelPath inputs))) None"
    by (rule nix_calls_manual [OF m])
  have reached: "environment_ok w inputs \<longrightarrow> build_call w inputs \<in> set (trace w inputs)"
    by (simp add: build_call_in_trace)
  have iff: "\<not> failed (trace w inputs) \<longleftrightarrow>
             environment_ok w inputs \<and> \<not> call_fails w (build_call w inputs)
           \<and> (nixCommand inputs = Run \<or> existsSync w (resultPath_of w (kernelPath inputs)))
           \<and> exec_outcome w ''nix'' [''run'', ''.#kernels'', ''--'', ''upload'', ''--repo_id'', hfRepo inputs, ''.'']
                (Some (path_resolve w (kernelPath inputs))) None = None"
    unfolding manual_failed_iff [OF m] build_call_ok_iff direct_upload_ok_def by (rule refl)
  have success: "\<not> failed (trace w inputs) \<longrightarrow>
                 build_call w inputs \<in> set (trace w inputs)
               \<and> Exec ''nix'' [''run'', ''.#kernels'', ''--'', ''upload'', ''--repo_id'', hfRepo inputs, ''.'']
                  (Some (path_resolve w (kernelPath inputs))) None \<in> set (trace w inputs)
               \<and> output_of (trace w inputs) ''kernel-path'' = Some []
               \<and> output_of (trace w inputs) ''artifact-name'' = Some (artifactName inputs)"
  proof
    assume ok: "\<not> failed (trace w inputs)"
    with iff have "environment_ok w inputs"
      by simp
    with reached manual_success [OF m ok] manual_upload_in_trace [OF m ok]
    show "build_call w inputs \<in> set (trace w inputs)
               \<and> Exec ''nix'' [''run'', ''.#kernels'', ''--'', ''upload'', ''--repo_id'', hfRepo inputs, ''.'']
                  (Some (path_resolve w (kernelPath inputs))) None \<in> set (trace w inputs)
               \<and> output_of (trace w inputs) ''kernel-path'' = Some []
               \<and> output_of (trace w inputs) ''artifact-name'' = Some (artifactName inputs)"
      by simp
  qed
  from calls reached success iff
  show "let args = (if nixCommand inputs = Build then ''build'' else ''run'')
                      # (if verbose inputs then [''-L''] else []) @ [''.#build-and-copy''];
             cwd = Some (path_resolve w (kernelPath inputs));
             env = Some (AList.update ''HF_REPO'' (hfRepo inputs) (process_env w));
             upload = [''run'', ''.#kernels'', ''--'', ''upload'', ''--repo_id'', hfRepo inputs, ''.'']
         in (\<forall>ev \<in> set (trace w inputs). exec_of ''nix'' ev \<longrightarrow>
               ev = Exec ''nix'' args cwd env \<or> ev = Exec ''nix'' upload cwd None)
          \<and> (environment_ok w inputs \<longrightarrow> Exec ''nix'' args cwd env \<in> set (trace w inputs))
          \<and> (\<not> failed (trace w inputs) \<longrightarrow>
                 Exec ''nix'' args cwd env \<in> set (trace w inputs)
               \<and> Exec ''nix'' upload cwd None \<in> set (trace w inputs)
               \<and> output_of (trace w inputs) ''kernel-path'' = Some []
               \<and> output_of (trace w inputs) ''artifact-name'' = Some (artifactName inputs))
          \<and> (\<not> failed (trace w inputs) \<longleftrightarrow>
                 environment_ok w inputs
               \<and> exec_outcome w ''nix'' args cwd env = None
               \<and> (nixCommand inputs = Run \<or> existsSync w (resultPath_of w (kernelPath inputs)))
               \<and> exec_outcome w ''nix'' upload cwd None = None)"
    unfolding Let_def b call_fails.simps by blast
next
  assume m: "\<not> needsManualUpload inputs"
  note b = build_call_plain [OF m, of w]
  have "\<forall>repo. \<not> list_ex (is_direct_upload repo) (trace w inputs)"
    by (simp add: no_direct_upload [OF m])
  moreover have "\<forall>ev \<in> set (trace w inputs). exec_of ''nix'' ev \<longrightarrow> ev = build_call w inputs"
    by (rule nix_calls_plain [OF m])
  moreover have "environment_ok w inputs \<longrightarrow> build_call w inputs \<in> set (trace w inputs)"
    by (simp add: build_call_in_trace)
  ultimately
  show "let args = (if nixCommand inputs = Build then ''build'' else ''run'')
                      # (if verbose inputs then [''-L''] else []) @ [''.#'' @ buildTarget inputs];
             cwd = Some (path_resolve w (kernelPath inputs));
             env = Some (if hfRepo inputs \<noteq> [] then AList.update ''HF_REPO'' (hfRepo inputs) (process_env w)
                         else process_env w)
         in (\<forall>repo. \<not> list_ex (is_direct_upload repo) (trace w inputs))
          \<and> (\<forall>ev \<in> set (trace w inputs). exec_of ''nix'' ev \<longrightarrow> ev = Exec ''nix'' args cwd env)
          \<and> (environment_ok w inputs \<longrightarrow> Exec ''nix'' args cwd env \<in> set (trace w inputs))"
    unfolding Let_def b by blast
qed

text \<open>The scenario of the specification: \<^verbatim>\<open>build-target: build-and-upload\<close> and
  \<^verbatim>\<open>hf-repo: org/model\<close> in a world where every collaborator succeeds; and the
  defaults, where the flag is not set and the target is \<^verbatim>\<open>ci\<close>.\<close>

theorem manual_upload_path_witness:
  "needsManualUpload manual_inputs
   \<and> effectiveBuildTarget manual_inputs = ''build-and-copy''
   \<and> environment_ok manual_world manual_inputs
   \<and> existsSync manual_world (resultPath_of manual_world (kernelPath manual_inputs))
   \<and> \<not> failed (run manual_world)
   \<and> Exec ''nix'' [''build'', ''-L'', ''.#build-and-copy''] (Some ''/work'')
        (Some [(''HOME'', ''/home/runner''), (''HF_REPO'', ''org/model'')]) \<in> set (run manual_world)
   \<and> Exec ''nix'' [''run'', ''.#kernels'', ''--'', ''upload'', ''--repo_id'', ''org/model'', ''.'']
        (Some ''/work'') None \<in> set (run manual_world)
   \<and> output_of (run manual_world) ''kernel-path'' = Some []
   \<and> output_of (run manual_world) ''artifact-name'' = Some ''kernel''
   \<and> \<not> needsManualUpload default_inputs
   \<and> effectiveBuildTarget default_inputs = ''ci''
   \<and> environment_ok default_world default_inputs
   \<and> Exec ''nix'' [''build'', ''-L'', ''.#ci''] (Some ''/work'') (Some [(''HOME'', ''/home/runner'')])
        \<in> set (run default_world)
   \<and> \<not> list_ex (is_direct_upload ''org/model'') (run default_world)"
proof -
  have m: "needsManualUpload manual_inputs"
    by (simp add: needsManualUpload_def manual_inputs_def)
  have n: "\<not> needsManualUpload default_inputs" and t: "buildTarget default_inputs = ''ci''"
    by (simp_all add: needsManualUpload_def default_inputs_def)
  have r': "run default_world = trace default_world default_inputs"
    by (rule run_trace [OF getInputs_default_world])
  have r: "run manual_world = trace manual_world manual_inputs"
    by (rule run_trace [OF getInputs_manual_world])
  have ok: "all_ok manual_world" "all_ok default_world"
    by (simp_all add: manual_world_def default_world_def all_ok_quiet_world)
  note st = all_ok_stages(1) [OF ok(1), of manual_inputs] all_ok_stages(1) [OF ok(2), of default_inputs]
  have ex: "existsSync manual_world (resultPath_of manual_world (kernelPath manual_inputs))"
    by (simp add: manual_world_def quiet_world_def)
  have x: "exec_outcome manual_world c a d e = None" for c a d e
    by (simp add: manual_world_def quiet_world_def)
  have f: "hfRepo manual_inputs = ''org/model''" "artifactName manual_inputs = ''kernel''"
    "nixCommand manual_inputs = Build" "verbose manual_inputs" "kernelPath manual_inputs = ''.''"
    "path_resolve manual_world ''.'' = ''/work''" "process_env manual_world = [(''HOME'', ''/home/runner'')]"
    "hfRepo default_inputs = []" "nixCommand default_inputs = Build" "verbose default_inputs"
    "kernelPath default_inputs = ''.''"
    "path_resolve default_world ''.'' = ''/work''" "process_env default_world = [(''HOME'', ''/home/runner'')]"
    by (simp_all add: manual_inputs_def default_inputs_def manual_world_def default_world_def quiet_world_def)
  from manual_upload_path [of manual_inputs manual_world]
    manual_upload_path [of default_inputs default_world] m n t st ex
  show ?thesis
    unfolding r r' Let_def by (simp add: x f)
qed



text \<open>
  C3. In build mode, when \<^verbatim>\<open>result\<close> does not exist under the kernel path after the
  call of the build tool, the build stage throws: the error
  \<^verbatim>\<open>Build result not found at <path>\<close> where that call returned, and what the call threw
  otherwise. The run fails; its trace has no copy, no artifact upload, no hub publish and
  no direct upload, and no output is set. Where the installer, the cache setup and the
  call of the build tool succeeded, the failure reported is that error. The action of
  \<^verbatim>\<open>src/index.ts\<close>, which always builds, fails in the same way (\<open>index_no_result\<close>).
\<close>

theorem build_mode_no_result:
  "nixCommand inputs = Build \<Longrightarrow> \<not> existsSync w (resultPath_of w (kernelPath inputs)) \<Longrightarrow>
     outcome (build w inputs)
       = (case exec_outcome w ''nix'' (nix_args (effectiveBuildTarget inputs) Build (verbose inputs))
                 (Some (path_resolve w (kernelPath inputs))) (Some (nix_env w (hfRepo inputs))) of
            None \<Rightarrow> Inl (Error (''Build result not found at '' @ resultPath_of w (kernelPath inputs)))
          | Some e \<Rightarrow> Inl e)
   \<and> failed (trace w inputs)
   \<and> \<not> list_ex is_packaging (trace w inputs)
   \<and> \<not> list_ex is_artifact_upload (trace w inputs)
   \<and> \<not> list_ex is_hub_publish (trace w inputs)
   \<and> (\<forall>repo. \<not> list_ex (is_direct_upload repo) (trace w inputs))
   \<and> \<not> list_ex is_SetOutput (trace w inputs)
   \<and> (environment_ok w inputs \<and> build_call_ok w inputs
      \<longrightarrow> last (trace w inputs)
            = SetFailed (''Build result not found at '' @ resultPath_of w (kernelPath inputs)))"
proof -
  assume b: "nixCommand inputs = Build" and ne: "\<not> existsSync w (resultPath_of w (kernelPath inputs))"
  note never = build_no_result_never [OF b ne]
  have "\<not> list_ex is_packaging (trace w inputs)"
    by (rule never) (simp_all add: never_prepare never_build build_call_def is_packaging_def)
  moreover have "\<not> list_ex is_artifact_upload (trace w inputs)"
    by (rule never) (simp_all add: never_prepare never_build build_call_def)
  moreover have "\<not> list_ex is_hub_publish (trace w inputs)"
    by (rule never) (simp_all add: never_prepare never_build build_call_def is_hub_publish_def)
  moreover have "\<not> list_ex (is_direct_upload repo) (trace w inputs)" for repo
    by (rule never) (simp_all add: never_prepare never_build build_call_def nix_args_not_upload)
  moreover have "\<not> list_ex is_SetOutput (trace w inputs)"
    by (rule never) (simp_all add: never_prepare never_build build_call_def)
  ultimately show ?thesis
    using outcome_build_build_no_result [OF b ne] build_no_result_failed [OF b ne]
      build_no_result_message [OF b ne]
    by blast
qed

text \<open>The default inputs with a build that leaves no result: the run fails with the
  message of the missing result.\<close>

theorem build_mode_no_result_witness:
  "nixCommand default_inputs = Build
   \<and> \<not> existsSync build_mode_world (resultPath_of build_mode_world (kernelPath default_inputs))
   \<and> environment_ok build_mode_world default_inputs \<and> build_call_ok build_mode_world default_inputs
   \<and> failed (run build_mode_world)
   \<and> \<not> list_ex is_packaging (run build_mode_world)
   \<and> \<not> list_ex is_SetOutput (run build_mode_world)
   \<and> last (run build_mode_world) = SetFailed ''Build result not found at /work/result''"
proof -
  have m: "nixCommand default_inputs = Build"
    by (simp add: default_inputs_def)
  have ne: "\<not> existsSync build_mode_world (resultPath_of build_mode_world (kernelPath default_inputs))"
    by (simp add: build_mode_world_def quiet_world_def)
  have r: "run build_mode_world = trace build_mode_world default_inputs"
    by (rule run_trace [OF getInputs_build_mode_world])
  have ok: "all_ok build_mode_world"
    by (simp add: build_mode_world_def all_ok_quiet_world)
  note st = all_ok_stages [OF ok, of default_inputs]
  have p: "resultPath_of build_mode_world (kernelPath default_inputs) = ''/work/result''"
    by (simp add: resultPath_of_def build_mode_world_def quiet_world_def default_inputs_def)
  from build_mode_no_result [OF m ne] st m ne
  show ?thesis
    unfolding r p by simp
qed

text \<open>
  C4, as the claim states it, fails: \<^verbatim>\<open>run\<close> sets both outputs right after the
  copy, before the artifact upload and the hub publish, so a run in which the artifact
  client fails ends in failure with both outputs set.
\<close>

theorem outputs_set_before_upload_fails:
  "failed (run upload_fails_world)
   \<and> output_of (run upload_fails_world) ''kernel-path'' = Some ''kernel-output''
   \<and> output_of (run upload_fails_world) ''artifact-name'' = Some ''kernel''"
  by code_simp

text \<open>
  C4, amended. A run that ends in failure has either set neither output, and then it
  started neither the artifact upload nor the hub publish; or it has started the
  artifact upload or the hub publish, and then both outputs are set, \<^verbatim>\<open>kernel-path\<close>
  to \<^verbatim>\<open><artifact name>-output\<close> and \<^verbatim>\<open>artifact-name\<close> to the artifact name. So a
  failure of the configuration, the installer, the cache setup, the build, the copy or
  the direct upload leaves both outputs unset, and a failure of the artifact upload or
  of the hub publish leaves both set. The action of \<^verbatim>\<open>src/index.ts\<close> sets its
  outputs at the same place and behaves in the same way (\<open>index_failed_outputs\<close>).
\<close>

theorem failed_run_outputs:
  "failed (run w) \<Longrightarrow>
     (\<not> list_ex is_artifact_upload (run w) \<and> \<not> list_ex is_hub_publish (run w)
        \<and> output_of (run w) ''kernel-path'' = None
        \<and> output_of (run w) ''artifact-name'' = None)
   \<or> ((list_ex is_artifact_upload (run w) \<or> list_ex is_hub_publish (run w))
        \<and> (\<exists>inputs. getInputs w = Inr inputs
              \<and> output_of (run w) ''kernel-path'' = Some (artifactName inputs @ ''-output'')
              \<and> output_of (run w) ''artifact-name'' = Some (artifactName inputs)))"
proof (cases "getInputs w")
  case (Inl e)
  then have "run w = [SetFailed (failure_message e)]"
    by (simp add: run_def bind_def catch_def)
  then show ?thesis by simp
next
  case (Inr inputs)
  assume "failed (run w)"
  then have "failed (trace w inputs)"
    by (simp add: run_trace [OF Inr])
  from failed_trace_outputs [OF this] Inr show ?thesis
    unfolding run_trace [OF Inr] by blast
qed

text \<open>A build that leaves no result: the run fails before the copy, and no output is
  set.\<close>

theorem failed_run_outputs_witness:
  "failed (run build_mode_world)
   \<and> output_of (run build_mode_world) ''kernel-path'' = None
   \<and> output_of (run build_mode_world) ''artifact-name'' = None"
proof -
  have f: "failed (run build_mode_world)"
    by code_simp
  have n: "\<not> list_ex is_artifact_upload (run build_mode_world)"
    "\<not> list_ex is_hub_publish (run build_mode_world)"
    by code_simp+
  from failed_run_outputs [OF f] n f show ?thesis
    by blast
qed

text \<open>
  C5. When the input \<^verbatim>\<open>nix-command\<close> is not empty and is neither \<^verbatim>\<open>build\<close> nor
  \<^verbatim>\<open>run\<close>, \<^verbatim>\<open>getInputs\<close> throws the error
  \<^verbatim>\<open>Invalid nix-command: <value>. Must be 'build' or 'run'.\<close>; the whole run is the one
  call of \<^verbatim>\<open>core.setFailed\<close> with that message, so the run fails and no process, glob
  or artifact client is called.
\<close>

theorem invalid_mode_fails_first:
  "getInput w ''nix-command'' \<noteq> [] \<Longrightarrow> getInput w ''nix-command'' \<noteq> ''build''
   \<Longrightarrow> getInput w ''nix-command'' \<noteq> ''run'' \<Longrightarrow>
     getInputs w = Inl (Error (''Invalid nix-command: '' @ getInput w ''nix-command''
                               @ ''. Must be 'build' or 'run'.''))
   \<and> run w = [SetFailed (''Invalid nix-command: '' @ getInput w ''nix-command''
                               @ ''. Must be 'build' or 'run'.'')]
   \<and> failed (run w)
   \<and> \<not> list_ex is_external (run w)"
proof -
  assume a: "getInput w ''nix-command'' \<noteq> []" "getInput w ''nix-command'' \<noteq> ''build''"
    "getInput w ''nix-command'' \<noteq> ''run''"
  note g = getInputs_invalid [OF a]
  have r: "run w = [SetFailed (''Invalid nix-command: '' @ getInput w ''nix-command''
                               @ ''. Must be 'build' or 'run'.'')]"
    by (simp add: run_def g bind_def catch_def)
  show ?thesis
    unfolding r using g by (simp add: failed_def)
qed

text \<open>The mode \<^verbatim>\<open>develop\<close>: one event, the failure.\<close>

theorem invalid_mode_fails_first_witness:
  "getInput invalid_mode_world ''nix-command'' = ''develop''
   \<and> run invalid_mode_world = [SetFailed ''Invalid nix-command: develop. Must be 'build' or 'run'.'']
   \<and> failed (run invalid_mode_world)
   \<and> \<not> list_ex is_external (run invalid_mode_world)"
proof -
  have g: "getInput invalid_mode_world ''nix-command'' = ''develop''"
    by (simp add: invalid_mode_world_def quiet_world_def inputs_of_def)
  have "getInput invalid_mode_world ''nix-command'' \<noteq> []"
    "getInput invalid_mode_world ''nix-command'' \<noteq> ''build''"
    "getInput invalid_mode_world ''nix-command'' \<noteq> ''run''"
    by (simp_all add: g)
  from invalid_mode_fails_first [OF this] show ?thesis
    by (simp add: g failed_def)
qed

text \<open>
  C6, as the claim states it, fails: with \<^verbatim>\<open>publish: true\<close>, no token,
  \<^verbatim>\<open>hf-repo: org/model\<close> and the target \<^verbatim>\<open>build-and-upload\<close> the run takes the
  manual upload path and returns before the publish branch: every collaborator
  succeeds, the run succeeds, and no warning is emitted.
\<close>

theorem manual_upload_gives_no_warning:
  "getInputs publish_manual_world = Inr publish_manual_inputs
   \<and> publish publish_manual_inputs \<and> hfToken publish_manual_inputs = []
   \<and> \<not> list_ex is_Warning (run publish_manual_world)
   \<and> \<not> failed (run publish_manual_world)"
proof -
  have "\<not> list_ex is_Warning (run publish_manual_world)"
    and "\<not> failed (run publish_manual_world)"
    by code_simp+
  then show ?thesis
    by (simp add: getInputs_publish_manual_world) (simp add: publish_manual_inputs_def)
qed

text \<open>
  C6, amended. When the publish flag is set and the token or the repository is empty,
  the hub publish never runs and the missing credentials raise no error: a run fails
  exactly when a call it made failed or, in build mode, the build left no result. The
  warning is emitted exactly in the runs that copy the artifact and do not fail: the
  runs that reach the publish branch, after the copy and the artifact upload (when
  enabled) have succeeded. So a run that needs no manual upload, finds the result of
  the build and sees none of its calls fail emits the warning and does not fail. A run
  on the manual upload path, a run whose target left no result, and a run that failed
  earlier emit no warning. The missing credentials are the only stage condition not
  treated as fatal: every failing call and every build without result (in build mode)
  fail the run, in every configuration, and a warning in a trace is this one, with the
  publish flag set and a credential missing (a missing result in run mode is no error:
  the build stage returns null, C2). In the
  action of \<^verbatim>\<open>src/index.ts\<close>, which has neither of the two early returns, the warning
  is emitted exactly in the runs that do not fail (\<open>index_warning_iff\<close>), and a run
  fails exactly when a call it made failed or the build left no result
  (\<open>index_failed_iff\<close>).
\<close>

theorem missing_credentials_warning:
  "(publish inputs \<and> (hfToken inputs = [] \<or> hfRepo inputs = []) \<longrightarrow>
        \<not> list_ex is_hub_publish (trace w inputs)
      \<and> (list_ex is_Warning (trace w inputs)
           \<longleftrightarrow> \<not> failed (trace w inputs) \<and> list_ex is_packaging (trace w inputs))
      \<and> (\<not> needsManualUpload inputs \<and> existsSync w (resultPath_of w (kernelPath inputs))
           \<and> (\<forall>ev \<in> set (trace w inputs). \<not> call_fails w ev)
         \<longrightarrow> Warning ''Publish requested but hf-token or hf-repo not provided. Skipping publish.''
               \<in> set (trace w inputs)
             \<and> \<not> failed (trace w inputs)))
   \<and> (failed (trace w inputs) \<longleftrightarrow>
        (\<exists>ev \<in> set (trace w inputs). call_fails w ev)
        \<or> (nixCommand inputs = Build \<and> \<not> existsSync w (resultPath_of w (kernelPath inputs))))
   \<and> (\<forall>ev \<in> set (trace w inputs). is_Warning ev \<longrightarrow>
        ev = Warning ''Publish requested but hf-token or hf-repo not provided. Skipping publish.''
      \<and> publish inputs \<and> (hfToken inputs = [] \<or> hfRepo inputs = []))"
proof (intro conjI impI)
  assume a: "publish inputs \<and> (hfToken inputs = [] \<or> hfRepo inputs = [])"
  then have p: "publish inputs" and c: "hfToken inputs = [] \<or> hfRepo inputs = []"
    by simp_all
  show "\<not> list_ex is_hub_publish (trace w inputs)"
    by (rule never_publish_manual [OF p c])
  show "list_ex is_Warning (trace w inputs)
           \<longleftrightarrow> \<not> failed (trace w inputs) \<and> list_ex is_packaging (trace w inputs)"
    by (rule warning_iff [OF p c])
  assume b: "\<not> needsManualUpload inputs \<and> existsSync w (resultPath_of w (kernelPath inputs))
           \<and> (\<forall>ev \<in> set (trace w inputs). \<not> call_fails w ev)"
  then have m: "\<not> needsManualUpload inputs" and x: "existsSync w (resultPath_of w (kernelPath inputs))"
    and ok: "\<forall>ev \<in> set (trace w inputs). \<not> call_fails w ev"
    by simp_all
  show "Warning ''Publish requested but hf-token or hf-repo not provided. Skipping publish.''
               \<in> set (trace w inputs)"
    by (rule warning_reached [OF p c m x ok])
  show "\<not> failed (trace w inputs)"
    by (rule warning_reached [OF p c m x ok])
next
  show "failed (trace w inputs) \<longleftrightarrow>
        (\<exists>ev \<in> set (trace w inputs). call_fails w ev)
        \<or> (nixCommand inputs = Build \<and> \<not> existsSync w (resultPath_of w (kernelPath inputs)))"
    by (rule failed_iff)
  show "\<forall>ev \<in> set (trace w inputs). is_Warning ev \<longrightarrow>
        ev = Warning ''Publish requested but hf-token or hf-repo not provided. Skipping publish.''
      \<and> publish inputs \<and> (hfToken inputs = [] \<or> hfRepo inputs = [])"
    by (rule warning_only)
qed

text \<open>The scenario of the specification: \<^verbatim>\<open>publish: true\<close> with an empty token. The
  publish is skipped with a warning and the run succeeds.\<close>

theorem missing_credentials_warning_witness:
  "publish publish_inputs \<and> hfToken publish_inputs = []
   \<and> \<not> needsManualUpload publish_inputs
   \<and> existsSync publish_world (resultPath_of publish_world (kernelPath publish_inputs))
   \<and> \<not> list_ex (call_fails publish_world) (run publish_world)
   \<and> \<not> list_ex is_hub_publish (run publish_world)
   \<and> list_ex is_packaging (run publish_world)
   \<and> list_ex is_Warning (run publish_world)
   \<and> Warning ''Publish requested but hf-token or hf-repo not provided. Skipping publish.''
       \<in> set (run publish_world)
   \<and> \<not> failed (run publish_world)"
proof -
  have p: "publish publish_inputs" and c: "hfToken publish_inputs = []"
    and m: "\<not> needsManualUpload publish_inputs"
    by (simp_all add: publish_inputs_def needsManualUpload_def)
  have r: "run publish_world = trace publish_world publish_inputs"
    by (rule run_trace [OF getInputs_publish_world])
  have x: "existsSync publish_world (resultPath_of publish_world (kernelPath publish_inputs))"
    by (simp add: publish_world_def quiet_world_def)
  have q: "\<forall>ev \<in> set (trace publish_world publish_inputs). \<not> call_fails publish_world ev"
    by (simp add: publish_world_def call_fails_quiet_world)
  have w: "list_ex is_Warning (trace publish_world publish_inputs)"
    if "Warning ''Publish requested but hf-token or hf-repo not provided. Skipping publish.''
          \<in> set (trace publish_world publish_inputs)"
    unfolding list_ex_iff using that by (rule bexI [rotated]) simp
  from q have q': "\<not> list_ex (call_fails publish_world) (trace publish_world publish_inputs)"
    by (simp add: list_ex_iff)
  from missing_credentials_warning [of publish_inputs publish_world] p c m x q q' w show ?thesis
    unfolding r by simp
qed

text \<open>
  C7. The sandbox line of the installer configuration is \<^verbatim>\<open>sandbox = relaxed\<close> for
  the mode \<^verbatim>\<open>relaxed\<close>, \<^verbatim>\<open>sandbox = true\<close> for \<^verbatim>\<open>true\<close>, \<^verbatim>\<open>sandbox = false\<close> for
  \<^verbatim>\<open>false\<close>, and \<^verbatim>\<open>sandbox-fallback = false\<close> for \<^verbatim>\<open>fallback\<close> and for every
  other value. It is the third line of the block given to the installer after
  \<^verbatim>\<open>--extra-conf\<close>, and every call of the installer in a run carries the block built
  from the sandbox mode of the inputs.
\<close>

theorem sandbox_mapping:
  "sandboxConf ''relaxed'' = ''sandbox = relaxed''
   \<and> sandboxConf ''true'' = ''sandbox = true''
   \<and> sandboxConf ''false'' = ''sandbox = false''
   \<and> sandboxConf ''fallback'' = ''sandbox-fallback = false''
   \<and> (m \<noteq> ''relaxed'' \<and> m \<noteq> ''true'' \<and> m \<noteq> ''false'' \<longrightarrow> sandboxConf m = ''sandbox-fallback = false'')
   \<and> extraConf maxJobs cores m extra
       = ''max-jobs = '' @ maxJobs @ ''\<newline>cores = '' @ cores @ ''\<newline>'' @ sandboxConf m
         @ ''\<newline>experimental-features = nix-command flakes\<newline>trusted-users = root runner''
         @ (if extra = [] then [] else ''\<newline>'' @ extra)
   \<and> (\<forall>ev \<in> set (trace w inputs). exec_of ''sh'' ev \<longrightarrow>
         ev = Exec ''sh'' [''/tmp/nix-installer.sh'', ''install'', ''--no-confirm'', ''--extra-conf'',
                extraConf (nixMaxJobs inputs) (nixCores inputs) (sandboxMode inputs) (extraNixConf inputs)]
                None None)"
proof (intro conjI impI)
  show "sandboxConf ''relaxed'' = ''sandbox = relaxed''"
    by (simp add: sandboxConf_def)
  show "sandboxConf ''true'' = ''sandbox = true''"
    by (simp add: sandboxConf_def)
  show "sandboxConf ''false'' = ''sandbox = false''"
    by (simp add: sandboxConf_def)
  show "sandboxConf ''fallback'' = ''sandbox-fallback = false''"
    by (simp add: sandboxConf_def)
  show "sandboxConf m = ''sandbox-fallback = false''"
    if "m \<noteq> ''relaxed'' \<and> m \<noteq> ''true'' \<and> m \<noteq> ''false''"
    using that by (simp add: sandboxConf_def)
  show "extraConf maxJobs cores m extra
       = ''max-jobs = '' @ maxJobs @ ''\<newline>cores = '' @ cores @ ''\<newline>'' @ sandboxConf m
         @ ''\<newline>experimental-features = nix-command flakes\<newline>trusted-users = root runner''
         @ (if extra = [] then [] else ''\<newline>'' @ extra)"
    by (cases "extra = []") (simp_all add: extraConf_def)
  show "\<forall>ev \<in> set (trace w inputs). exec_of ''sh'' ev \<longrightarrow>
         ev = Exec ''sh'' [''/tmp/nix-installer.sh'', ''install'', ''--no-confirm'', ''--extra-conf'',
                extraConf (nixMaxJobs inputs) (nixCores inputs) (sandboxMode inputs) (extraNixConf inputs)]
                None None"
    by (rule installer_call_of_run)
qed

text \<open>The mode \<^verbatim>\<open>strict\<close> is not one the \<^verbatim>\<open>switch\<close> names: the installer is called
  with \<^verbatim>\<open>sandbox-fallback = false\<close>.\<close>

theorem sandbox_mapping_witness:
  "''strict'' \<noteq> ''relaxed'' \<and> ''strict'' \<noteq> ''true'' \<and> ''strict'' \<noteq> ''false''
   \<and> sandboxConf ''strict'' = ''sandbox-fallback = false''
   \<and> Exec ''sh'' [''/tmp/nix-installer.sh'', ''install'', ''--no-confirm'', ''--extra-conf'',
        ''max-jobs = 4\<newline>cores = 12\<newline>sandbox-fallback = false\<newline>experimental-features = nix-command flakes\<newline>trusted-users = root runner'']
        None None \<in> set (run sandbox_world)
   \<and> exec_of ''sh'' (Exec ''sh'' [''/tmp/nix-installer.sh'', ''install'', ''--no-confirm'', ''--extra-conf'',
        ''max-jobs = 4\<newline>cores = 12\<newline>sandbox-fallback = false\<newline>experimental-features = nix-command flakes\<newline>trusted-users = root runner'']
        None None)"
proof -
  have r: "run sandbox_world = trace sandbox_world sandbox_inputs"
    by (rule run_trace [OF getInputs_sandbox_world])
  have ok: "all_ok sandbox_world"
    by (simp add: sandbox_world_def all_ok_quiet_world)
  have f: "nixMaxJobs sandbox_inputs = ''4''" "nixCores sandbox_inputs = ''12''"
    "sandboxMode sandbox_inputs = ''strict''" "extraNixConf sandbox_inputs = []"
    by (simp_all add: sandbox_inputs_def)
  from sandbox_mapping [of "''strict''" "''4''" "''12''" "[]" sandbox_world sandbox_inputs]
  have c: "sandboxConf ''strict'' = ''sandbox-fallback = false''"
    and e: "extraConf ''4'' ''12'' ''strict'' [] =
      ''max-jobs = 4\<newline>cores = 12\<newline>sandbox-fallback = false\<newline>experimental-features = nix-command flakes\<newline>trusted-users = root runner''"
    by simp_all
  from installer_call_in_trace [OF ok, of sandbox_inputs] c
  show ?thesis
    unfolding r f e by simp
qed

text \<open>
  C8. With an empty cache name \<^verbatim>\<open>setupCachix\<close> writes one log line and returns: it
  starts no process and throws nothing. In a run on inputs whose cache name is empty
  neither \<^verbatim>\<open>nix-env\<close> nor \<^verbatim>\<open>cachix\<close> is ever called, and once the installer has
  succeeded the run reaches the call of the build tool.
\<close>

theorem empty_cache_name_skips:
  "setupCachix w [] authToken = ([Info ''Skipping Cachix setup (no cache name provided)''], Inr ())
   \<and> (cachixName inputs = [] \<longrightarrow>
        \<not> list_ex is_cache_call (trace w inputs)
      \<and> (outcome (installNix w (nixMaxJobs inputs) (nixCores inputs) (sandboxMode inputs) (extraNixConf inputs)) = Inr ()
          \<longrightarrow> build_call w inputs \<in> set (trace w inputs)))"
proof (intro conjI impI)
  show "setupCachix w [] authToken = ([Info ''Skipping Cachix setup (no cache name provided)''], Inr ())"
    by (simp add: setupCachix_def emit_def)
next
  assume "cachixName inputs = []"
  then show "\<not> list_ex is_cache_call (trace w inputs)"
    by (rule no_cache_name_never)
next
  assume c: "cachixName inputs = []"
    and i: "outcome (installNix w (nixMaxJobs inputs) (nixCores inputs) (sandboxMode inputs) (extraNixConf inputs)) = Inr ()"
  have "outcome (prepare w inputs) = Inr ()"
    by (simp add: outcome_prepare i c setupCachix_def)
  then show "build_call w inputs \<in> set (trace w inputs)"
    using build_call_in_build [of w inputs] by (simp add: trace_eq events_run_inputs)
qed

text \<open>The default inputs with the cache name emptied, every collaborator succeeding.\<close>

theorem empty_cache_name_skips_witness:
  "cachixName no_cache_inputs = []
   \<and> outcome (installNix default_world (nixMaxJobs no_cache_inputs) (nixCores no_cache_inputs)
        (sandboxMode no_cache_inputs) (extraNixConf no_cache_inputs)) = Inr ()
   \<and> \<not> list_ex is_cache_call (trace default_world no_cache_inputs)
   \<and> build_call default_world no_cache_inputs \<in> set (trace default_world no_cache_inputs)"
proof -
  have c: "cachixName no_cache_inputs = []"
    by (simp add: no_cache_inputs_def)
  have ok: "all_ok default_world"
    by (simp add: default_world_def all_ok_quiet_world)
  note i = outcome_installNix_ok [OF ok, of "nixMaxJobs no_cache_inputs" "nixCores no_cache_inputs"
      "sandboxMode no_cache_inputs" "extraNixConf no_cache_inputs"]
  from empty_cache_name_skips [of default_world "[]" no_cache_inputs] c i
  show ?thesis
    by simp
qed

text \<open>
  C9. In the configuration \<^verbatim>\<open>getInputs\<close> returns, every string field is its literal
  default when the raw input is empty and the raw input otherwise (\<^verbatim>\<open>.\<close>, \<^verbatim>\<open>ci\<close>,
  \<^verbatim>\<open>kernel\<close>, \<^verbatim>\<open>huggingface\<close>, \<^verbatim>\<open>4\<close>, \<^verbatim>\<open>12\<close>, \<^verbatim>\<open>fallback\<close>, and the empty
  string for the cache token, the extra configuration, the hub token and the hub
  repository); the mode is \<^verbatim>\<open>build\<close> when the raw input is empty; \<^verbatim>\<open>verbose\<close> and
  \<^verbatim>\<open>uploadArtifact\<close> are true unless the raw value is exactly \<^verbatim>\<open>false\<close>; \<^verbatim>\<open>publish\<close>
  is true only when the raw value is exactly \<^verbatim>\<open>true\<close>. The \<^verbatim>\<open>getInputs\<close> of
  \<^verbatim>\<open>src/index.ts\<close> follows the same rules on its eleven fields, with another default
  target (\<open>index_getInputs_defaults\<close>).
\<close>

theorem getInputs_defaults:
  "getInputs w = Inr cfg \<Longrightarrow>
     kernelPath cfg = (if getInput w ''kernel-path'' = [] then ''.'' else getInput w ''kernel-path'')
   \<and> buildTarget cfg = (if getInput w ''build-target'' = [] then ''ci'' else getInput w ''build-target'')
   \<and> nixCommand cfg = (if getInput w ''nix-command'' = [] then Build
                        else if getInput w ''nix-command'' = ''build'' then Build else Run)
   \<and> artifactName cfg = (if getInput w ''artifact-name'' = [] then ''kernel'' else getInput w ''artifact-name'')
   \<and> cachixName cfg = (if getInput w ''cachix-name'' = [] then ''huggingface'' else getInput w ''cachix-name'')
   \<and> cachixAuthToken cfg = getInput w ''cachix-auth-token''
   \<and> nixMaxJobs cfg = (if getInput w ''nix-max-jobs'' = [] then ''4'' else getInput w ''nix-max-jobs'')
   \<and> nixCores cfg = (if getInput w ''nix-cores'' = [] then ''12'' else getInput w ''nix-cores'')
   \<and> sandboxMode cfg = (if getInput w ''sandbox-mode'' = [] then ''fallback'' else getInput w ''sandbox-mode'')
   \<and> extraNixConf cfg = getInput w ''extra-nix-conf''
   \<and> hfToken cfg = getInput w ''hf-token''
   \<and> hfRepo cfg = getInput w ''hf-repo''
   \<and> (verbose cfg \<longleftrightarrow> getInput w ''verbose'' \<noteq> ''false'')
   \<and> (uploadArtifact cfg \<longleftrightarrow> getInput w ''upload-artifact'' \<noteq> ''false'')
   \<and> (publish cfg \<longleftrightarrow> getInput w ''publish'' = ''true'')"
proof -
  assume "getInputs w = Inr cfg"
  note c = getInputs_Inr [OF this]
  have "nixCommand cfg = (if getInput w ''nix-command'' = [] then Build
                        else if getInput w ''nix-command'' = ''build'' then Build else Run)"
    by (subst c) (simp add: or_default_def)
  moreover have "kernelPath cfg = (if getInput w ''kernel-path'' = [] then ''.'' else getInput w ''kernel-path'')"
    by (subst c) (simp add: or_default_if)
  moreover have "buildTarget cfg = (if getInput w ''build-target'' = [] then ''ci'' else getInput w ''build-target'')"
    by (subst c) (simp add: or_default_if)
  moreover have "artifactName cfg = (if getInput w ''artifact-name'' = [] then ''kernel'' else getInput w ''artifact-name'')"
    by (subst c) (simp add: or_default_if)
  moreover have "cachixName cfg = (if getInput w ''cachix-name'' = [] then ''huggingface'' else getInput w ''cachix-name'')"
    by (subst c) (simp add: or_default_if)
  moreover have "cachixAuthToken cfg = getInput w ''cachix-auth-token''"
    by (subst c) (simp add: or_default_Nil)
  moreover have "nixMaxJobs cfg = (if getInput w ''nix-max-jobs'' = [] then ''4'' else getInput w ''nix-max-jobs'')"
    by (subst c) (simp add: or_default_if)
  moreover have "nixCores cfg = (if getInput w ''nix-cores'' = [] then ''12'' else getInput w ''nix-cores'')"
    by (subst c) (simp add: or_default_if)
  moreover have "sandboxMode cfg = (if getInput w ''sandbox-mode'' = [] then ''fallback'' else getInput w ''sandbox-mode'')"
    by (subst c) (simp add: or_default_if)
  moreover have "extraNixConf cfg = getInput w ''extra-nix-conf''"
    by (subst c) (simp add: or_default_Nil)
  moreover have "hfToken cfg = getInput w ''hf-token''"
    by (subst c) (simp add: or_default_Nil)
  moreover have "hfRepo cfg = getInput w ''hf-repo''"
    by (subst c) (simp add: or_default_Nil)
  moreover have "verbose cfg \<longleftrightarrow> getInput w ''verbose'' \<noteq> ''false''"
    by (subst c) simp
  moreover have "uploadArtifact cfg \<longleftrightarrow> getInput w ''upload-artifact'' \<noteq> ''false''"
    by (subst c) simp
  moreover have "publish cfg \<longleftrightarrow> getInput w ''publish'' = ''true''"
    by (subst c) simp
  ultimately show ?thesis
    by (intro conjI)
qed

text \<open>No input given: the defaults.\<close>

theorem getInputs_defaults_witness:
  "getInputs default_world = Inr default_inputs
   \<and> kernelPath default_inputs = ''.'' \<and> buildTarget default_inputs = ''ci''
   \<and> nixCommand default_inputs = Build \<and> artifactName default_inputs = ''kernel''
   \<and> cachixName default_inputs = ''huggingface'' \<and> cachixAuthToken default_inputs = []
   \<and> nixMaxJobs default_inputs = ''4'' \<and> nixCores default_inputs = ''12''
   \<and> sandboxMode default_inputs = ''fallback'' \<and> extraNixConf default_inputs = []
   \<and> hfToken default_inputs = [] \<and> hfRepo default_inputs = []
   \<and> verbose default_inputs \<and> uploadArtifact default_inputs \<and> \<not> publish default_inputs"
proof -
  have g: "getInput default_world k = []" for k
    by (simp add: default_world_def quiet_world_def inputs_of_def)
  from getInputs_defaults [OF getInputs_default_world] getInputs_default_world
  show ?thesis
    unfolding g by simp
qed

text \<open>
  C10. On the manual upload path (\<^verbatim>\<open>hf-repo\<close> set and the requested target
  \<^verbatim>\<open>build-and-upload\<close>) the generic artifact upload and the hub publish never run,
  whatever the upload and publish flags and the credentials are and whatever the
  collaborators answer: the trace of the run has no glob, no call of the artifact
  client, no \<^verbatim>\<open>pip\<close> and no \<^verbatim>\<open>python\<close>. When the run does not fail, the
  direct upload is followed by the end of its group, the two outputs and the closing
  message, and by nothing else: \<^verbatim>\<open>run\<close> returns there.
\<close>

theorem manual_upload_skips_upload_and_publish:
  "needsManualUpload inputs \<Longrightarrow>
     \<not> list_ex is_artifact_upload (trace w inputs)
   \<and> \<not> list_ex is_hub_publish (trace w inputs)
   \<and> (\<not> failed (trace w inputs) \<longrightarrow>
        (\<exists>before. trace w inputs = before @
           [Exec ''nix'' [''run'', ''.#kernels'', ''--'', ''upload'', ''--repo_id'', hfRepo inputs, ''.'']
              (Some (path_resolve w (kernelPath inputs))) None,
            Info (''Kernel uploaded to https://hf.co/'' @ hfRepo inputs),
            EndGroup,
            SetOutput ''kernel-path'' [],
            SetOutput ''artifact-name'' (artifactName inputs),
            Info ''Action completed successfully!'']))"
proof -
  assume m: "needsManualUpload inputs"
  have a: "\<not> list_ex is_artifact_upload (trace w inputs)"
    using m by (simp add: list_ex_trace never_list_ex manual_never_artifact_upload)
  have b: "\<not> list_ex is_hub_publish (trace w inputs)"
    using m by (simp add: list_ex_trace is_hub_publish_def never_list_ex manual_never_hub_publish)
  from a b manual_trace [OF m] show ?thesis
    by blast
qed

text \<open>The theorem at the inputs \<^verbatim>\<open>build-target: build-and-upload\<close>,
  \<^verbatim>\<open>hf-repo: org/model\<close>, \<^verbatim>\<open>hf-token\<close> and \<^verbatim>\<open>publish: true\<close>, with the upload
  flag at its default: the run neither uploads an artifact nor publishes.\<close>

theorem manual_upload_skips_upload_and_publish_witness:
  "needsManualUpload manual_inputs
   \<and> uploadArtifact manual_inputs \<and> publish manual_inputs
   \<and> hfToken manual_inputs \<noteq> [] \<and> hfRepo manual_inputs \<noteq> []
   \<and> \<not> list_ex is_artifact_upload (run manual_world)
   \<and> \<not> list_ex is_hub_publish (run manual_world)
   \<and> \<not> failed (run manual_world)
   \<and> drop (length (run manual_world) - 6) (run manual_world) =
        [Exec ''nix'' [''run'', ''.#kernels'', ''--'', ''upload'', ''--repo_id'', ''org/model'', ''.'']
           (Some ''/work'') None,
         Info ''Kernel uploaded to https://hf.co/org/model'',
         EndGroup,
         SetOutput ''kernel-path'' [],
         SetOutput ''artifact-name'' ''kernel'',
         Info ''Action completed successfully!'']"
proof -
  have m: "needsManualUpload manual_inputs"
    by (simp add: needsManualUpload_def manual_inputs_def)
  have r: "run manual_world = trace manual_world manual_inputs"
    by (rule run_trace [OF getInputs_manual_world])
  have ok: "\<not> failed (run manual_world)"
    by code_simp
  have f: "hfRepo manual_inputs = ''org/model''" "artifactName manual_inputs = ''kernel''"
    "path_resolve manual_world (kernelPath manual_inputs) = ''/work''"
    by (simp_all add: manual_inputs_def manual_world_def quiet_world_def)
  from manual_upload_skips_upload_and_publish [OF m, of manual_world] ok
  have a: "\<not> list_ex is_artifact_upload (run manual_world)"
    and b: "\<not> list_ex is_hub_publish (run manual_world)"
    and "\<exists>before. run manual_world = before @
        [Exec ''nix'' [''run'', ''.#kernels'', ''--'', ''upload'', ''--repo_id'', ''org/model'', ''.'']
           (Some ''/work'') None,
         Info ''Kernel uploaded to https://hf.co/org/model'',
         EndGroup,
         SetOutput ''kernel-path'' [],
         SetOutput ''artifact-name'' ''kernel'',
         Info ''Action completed successfully!'']"
    by (simp_all add: r f)
  then obtain before where
    c: "run manual_world = before @
        [Exec ''nix'' [''run'', ''.#kernels'', ''--'', ''upload'', ''--repo_id'', ''org/model'', ''.'']
           (Some ''/work'') None,
         Info ''Kernel uploaded to https://hf.co/org/model'',
         EndGroup,
         SetOutput ''kernel-path'' [],
         SetOutput ''artifact-name'' ''kernel'',
         Info ''Action completed successfully!'']"
    by blast
  have "drop (length (run manual_world) - 6) (run manual_world) =
        [Exec ''nix'' [''run'', ''.#kernels'', ''--'', ''upload'', ''--repo_id'', ''org/model'', ''.'']
           (Some ''/work'') None,
         Info ''Kernel uploaded to https://hf.co/org/model'',
         EndGroup,
         SetOutput ''kernel-path'' [],
         SetOutput ''artifact-name'' ''kernel'',
         Info ''Action completed successfully!'']"
    by (subst (1 2) c) simp
  with a b ok m show ?thesis
    by (simp add: manual_inputs_def)
qed

end
